theory Spec2Isabelle
  imports Complex_Main
begin

section \<open>Scalars, sizes and errors\<close>

text \<open>
  The engine computes on C++ \<^verbatim>\<open>float\<close>. The embedding leaves the scalar type abstract:
  a type \<open>'a\<close> that only carries the operation symbols \<open>0\<close>, \<open>1\<close>, \<open>+\<close>, \<open>-\<close>, \<open>*\<close>,
  \<open>/\<close> and \<open><\<close> (syntactic classes, no algebraic law), and the library calls of the
  source are a record of functions. Every expression keeps the order of operations of
  the source, so a theorem proved for every \<open>'a\<close> holds for binary32 arithmetic with its
  rounding, infinities and NaN, and for exact arithmetic alike. Where a property needs
  a law of arithmetic, the law is a hypothesis of the theorem.
\<close>

record 'a libm =
  to_float :: "nat \<Rightarrow> 'a"     \<comment> \<open>the conversion of a \<^verbatim>\<open>size_t\<close> to \<^verbatim>\<open>float\<close>\<close>
  sqrtf :: "'a \<Rightarrow> 'a"        \<comment> \<open>\<^verbatim>\<open>std::sqrt\<close>\<close>
  expf :: "'a \<Rightarrow> 'a"         \<comment> \<open>\<^verbatim>\<open>std::exp\<close>\<close>
  tanhf :: "'a \<Rightarrow> 'a"        \<comment> \<open>\<^verbatim>\<open>std::tanh\<close>\<close>

text \<open>
  \<^verbatim>\<open>size_t\<close> is a 64-bit unsigned integer. Sizes are natural numbers here and the
  two places where the source can leave the range are written out: the product in
  \<^verbatim>\<open>Tensor::size\<close> and the subtraction \<^verbatim>\<open>layers.size() - 1\<close>.
\<close>

definition SIZE_MAX :: nat where
  "SIZE_MAX = 2 ^ 64 - 1"

definition size_t_mul :: "nat \<Rightarrow> nat \<Rightarrow> nat" where
  "size_t_mul a b = (a * b) mod 2 ^ 64"

definition size_t_sub :: "nat \<Rightarrow> nat \<Rightarrow> nat" where
  "size_t_sub a b = (a + 2 ^ 64 - b) mod 2 ^ 64"

text \<open>
  The failures of the source, named as the specification names them:
  \<^item> \<open>InvalidShape\<close>: \<^verbatim>\<open>std::invalid_argument("Invalid tensor shape")\<close> of \<^verbatim>\<open>Tensor::size\<close>;
  \<^item> \<open>ShapeMismatch\<close>: \<^verbatim>\<open>std::invalid_argument\<close> of the rank and channel checks of BatchNorm;
  \<^item> \<open>SizeMismatch\<close>: \<^verbatim>\<open>std::invalid_argument\<close> of \<^verbatim>\<open>mse_loss\<close>;
  \<^item> \<open>IllegalState\<close>: every \<^verbatim>\<open>std::runtime_error\<close>;
  \<^item> \<open>LengthError\<close>: \<^verbatim>\<open>std::length_error\<close> of \<^verbatim>\<open>std::vector::resize\<close> beyond \<^verbatim>\<open>max_size()\<close>;
  \<^item> \<open>Undefined\<close>: an element access outside a buffer, undefined behaviour in C++.
\<close>

datatype error = InvalidShape | ShapeMismatch | SizeMismatch | IllegalState | LengthError | Undefined

text \<open>\<^verbatim>\<open>std::vector::resize(n)\<close>: cut to \<open>n\<close> elements, or extend with value-initialised ones.\<close>

definition vector_resize :: "'b \<Rightarrow> 'b list \<Rightarrow> nat \<Rightarrow> 'b list" where
  "vector_resize dflt xs n = take n xs @ replicate (n - length xs) dflt"


text \<open>
  For a vector of \<^verbatim>\<open>float\<close> (4 bytes) \<^verbatim>\<open>max_size()\<close> is \<^verbatim>\<open>PTRDIFF_MAX / sizeof(float)\<close>.
  \<^verbatim>\<open>resize(n)\<close> beyond the present size appends \<open>n - size()\<close> elements and throws
  \<^verbatim>\<open>std::length_error\<close> when \<^verbatim>\<open>max_size() - size()\<close> is less than that; a \<^verbatim>\<open>resize\<close> that
  does not grow the vector never throws.
\<close>

definition float_vector_max_size :: nat where
  "float_vector_max_size = 2 ^ 61 - 1"

definition resize_throws :: "'b list \<Rightarrow> nat \<Rightarrow> bool" where
  "resize_throws xs n \<longleftrightarrow> length xs < n \<and> float_vector_max_size - length xs < n - length xs"

definition float_vector_resize :: "'b \<Rightarrow> 'b list \<Rightarrow> nat \<Rightarrow> error + 'b list" where
  "float_vector_resize dflt xs n =
     (if resize_throws xs n then Inl LengthError else Inr (vector_resize dflt xs n))"

section \<open>Tensor\<close>

record 'a Tensor =
  shape :: "nat list"
  data :: "'a list"
  grad :: "'a list"

definition Tensor_new :: "'a Tensor" where
  "Tensor_new = \<lparr>shape = [], data = [], grad = []\<rparr>"

definition validate_shape :: "'a Tensor \<Rightarrow> bool" where
  "validate_shape t = (if shape t = [] then False else list_all (\<lambda>dim. dim \<noteq> 0) (shape t))"

definition Tensor_size :: "'a Tensor \<Rightarrow> error + nat" where
  "Tensor_size t =
     (if \<not> validate_shape t then Inl InvalidShape
      else Inr (fold (\<lambda>dim total. size_t_mul total dim) (shape t) 1))"

definition resize :: "'a::zero Tensor \<Rightarrow> error + 'a Tensor" where
  "resize t = (case Tensor_size t of Inl e \<Rightarrow> Inl e
               | Inr n \<Rightarrow>
                   (case float_vector_resize 0 (data t) n of Inl e \<Rightarrow> Inl e
                    | Inr d \<Rightarrow> Inr (t\<lparr>data := d\<rparr>)))"

definition resize_grad :: "'a::zero Tensor \<Rightarrow> error + 'a Tensor" where
  "resize_grad t = (case Tensor_size t of Inl e \<Rightarrow> Inl e
                    | Inr n \<Rightarrow>
                        (case float_vector_resize 0 (grad t) n of Inl e \<Rightarrow> Inl e
                         | Inr g \<Rightarrow> Inr (t\<lparr>grad := g\<rparr>)))"

definition zero_grad :: "'a::zero Tensor \<Rightarrow> 'a Tensor" where
  "zero_grad t = t\<lparr>grad := map (\<lambda>_. 0) (grad t)\<rparr>"

text \<open>A counted loop \<^verbatim>\<open>for (size_t i = 0; i < n; ++i) body\<close> on a state.\<close>

definition for_loop :: "nat \<Rightarrow> (nat \<Rightarrow> 's \<Rightarrow> 's) \<Rightarrow> 's \<Rightarrow> 's" where
  "for_loop n body s = fold body [0..<n] s"

section \<open>Linear\<close>

record 'a Linear =
  weight :: "'a Tensor"
  bias :: "'a Tensor"

text \<open>
  \<^verbatim>\<open>Linear::forward(input, output)\<close>. The result is the new \<open>output\<close>. An index outside
  a buffer is \<open>Undefined\<close>; the loops visit every \<open>i < input.shape[0]\<close>, \<open>j < out_features\<close>,
  \<open>k < in_features\<close>, so the largest index into each buffer is known beforehand.
\<close>

definition Linear_forward_data ::
  "nat \<Rightarrow> nat \<Rightarrow> nat \<Rightarrow> 'a::{plus,times} list \<Rightarrow> 'a list \<Rightarrow> 'a list \<Rightarrow> 'a list \<Rightarrow> 'a list" where
  "Linear_forward_data batch in_features out_features w b x out =
     for_loop batch (\<lambda>i.
       for_loop out_features (\<lambda>j out1.
         for_loop in_features (\<lambda>k out2.
             out2[i * out_features + j :=
                    out2 ! (i * out_features + j)
                    + x ! (i * in_features + k) * w ! (k * out_features + j)])
           (out1[i * out_features + j := b ! j]))) out"

definition Linear_forward ::
  "'a::{zero,plus,times} Linear \<Rightarrow> 'a Tensor \<Rightarrow> 'a Tensor \<Rightarrow> error + 'a Tensor" where
  "Linear_forward l input output =
     (if length (shape (weight l)) < 2 \<or> shape input = [] then Inl Undefined
      else
        let in_features = shape (weight l) ! 0;
            out_features = shape (weight l) ! 1;
            batch = shape input ! 0
        in case resize (output\<lparr>shape := [batch, out_features]\<rparr>) of
             Inl e \<Rightarrow> Inl e
           | Inr out \<Rightarrow>
               if \<not> (batch * out_features \<le> length (data out)
                      \<and> out_features \<le> length (data (bias l))
                      \<and> batch * in_features \<le> length (data input)
                      \<and> in_features * out_features \<le> length (data (weight l)))
               then Inl Undefined
               else Inr (out\<lparr>data := Linear_forward_data batch in_features out_features
                                       (data (weight l)) (data (bias l)) (data input) (data out)\<rparr>))"

text \<open>
  \<^verbatim>\<open>Linear::backward(output, input)\<close>: \<open>output\<close> carries the upstream gradient in its
  \<open>grad\<close>, \<open>input\<close> still holds the data of the forward call. The first loop nest
  updates \<open>input.grad\<close> and \<open>weight.grad\<close> together, the second \<open>bias.grad\<close>.
  The three \<^verbatim>\<open>resize_grad\<close> calls succeed only on valid shapes, so \<open>in_features\<close> and
  \<open>out_features\<close> are positive where the loops run.
\<close>

definition Linear_backward_grads ::
  "nat \<Rightarrow> nat \<Rightarrow> nat \<Rightarrow> 'a::{zero,plus,times} list \<Rightarrow> 'a list \<Rightarrow> 'a list
     \<Rightarrow> 'a list \<times> 'a list \<Rightarrow> 'a list \<times> 'a list" where
  "Linear_backward_grads batch in_features out_features w og x =
     for_loop batch (\<lambda>i.
       for_loop in_features (\<lambda>j (ig1, wg1).
         for_loop out_features (\<lambda>k (ig2, wg2).
             (ig2[i * in_features + j :=
                    ig2 ! (i * in_features + j)
                    + og ! (i * out_features + k) * w ! (j * out_features + k)],
              wg2[j * out_features + k :=
                    wg2 ! (j * out_features + k)
                    + og ! (i * out_features + k) * x ! (i * in_features + j)]))
           (ig1[i * in_features + j := 0], wg1)))"

definition Linear_backward_bias :: "nat \<Rightarrow> nat \<Rightarrow> 'a::plus list \<Rightarrow> 'a list \<Rightarrow> 'a list" where
  "Linear_backward_bias batch out_features og =
     for_loop batch (\<lambda>i.
       for_loop out_features (\<lambda>k bg. bg[k := bg ! k + og ! (i * out_features + k)]))"

definition Linear_backward ::
  "'a::{zero,plus,times} Linear \<Rightarrow> 'a Tensor \<Rightarrow> 'a Tensor \<Rightarrow> error + 'a Linear \<times> 'a Tensor" where
  "Linear_backward l output input =
     (if length (shape (weight l)) < 2 \<or> shape output = [] then Inl Undefined
      else
        let in_features = shape (weight l) ! 0;
            out_features = shape (weight l) ! 1;
            batch_size = shape output ! 0
        in case resize_grad input of Inl e \<Rightarrow> Inl e | Inr inp \<Rightarrow>
          (case resize_grad (weight l) of Inl e \<Rightarrow> Inl e | Inr wt \<Rightarrow>
          (case resize_grad (bias l) of Inl e \<Rightarrow> Inl e | Inr bs \<Rightarrow>
             if \<not> (batch_size = 0
                    \<or> batch_size * in_features \<le> length (grad inp)
                      \<and> batch_size * in_features \<le> length (data inp)
                      \<and> batch_size * out_features \<le> length (grad output)
                      \<and> in_features * out_features \<le> length (data wt)
                      \<and> in_features * out_features \<le> length (grad wt)
                      \<and> out_features \<le> length (grad bs))
             then Inl Undefined
             else
               let (ig, wg) = Linear_backward_grads batch_size in_features out_features
                                (data wt) (grad output) (data inp) (grad inp, grad wt);
                   bg = Linear_backward_bias batch_size out_features (grad output) (grad bs)
               in Inr (\<lparr>weight = wt\<lparr>grad := wg\<rparr>, bias = bs\<lparr>grad := bg\<rparr>\<rparr>,
                       inp\<lparr>grad := ig\<rparr>))))"

section \<open>Activations\<close>


text \<open>
  \<^verbatim>\<open>ReLU::backward\<close> writes \<^verbatim>\<open>(output.data[i] > 0) ? output.grad[i] : 0\<close>: the element
  \<open>output.grad[i]\<close> is read only at the positions where \<open>output.data[i]\<close> is positive.
\<close>

definition ReLU_backward :: "'a::{zero,ord} Tensor \<Rightarrow> 'a Tensor \<Rightarrow> error + 'a Tensor" where
  "ReLU_backward output input =
     (case resize_grad input of Inl e \<Rightarrow> Inl e | Inr inp \<Rightarrow>
        if \<not> (length (data output) \<le> length (grad inp)
               \<and> list_all (\<lambda>i. 0 < data output ! i \<longrightarrow> i < length (grad output))
                   [0..<length (data output)]) then Inl Undefined
        else Inr (inp\<lparr>grad := for_loop (length (data output))
                    (\<lambda>i ig. ig[i := (if 0 < data output ! i then grad output ! i else 0)])
                    (grad inp)\<rparr>))"


definition Sigmoid_backward ::
  "'a::{zero,one,minus,times} Tensor \<Rightarrow> 'a Tensor \<Rightarrow> error + 'a Tensor" where
  "Sigmoid_backward output input =
     (case resize_grad input of Inl e \<Rightarrow> Inl e | Inr inp \<Rightarrow>
        if \<not> (length (data output) \<le> length (grad inp)
               \<and> length (data output) \<le> length (grad output)) then Inl Undefined
        else Inr (inp\<lparr>grad := for_loop (length (data output))
                    (\<lambda>i ig. let s = data output ! i in ig[i := grad output ! i * s * (1 - s)])
                    (grad inp)\<rparr>))"


definition Tanh_backward ::
  "'a::{zero,one,minus,times} Tensor \<Rightarrow> 'a Tensor \<Rightarrow> error + 'a Tensor" where
  "Tanh_backward output input =
     (case resize_grad input of Inl e \<Rightarrow> Inl e | Inr inp \<Rightarrow>
        if \<not> (length (data output) \<le> length (grad inp)
               \<and> length (data output) \<le> length (grad output)) then Inl Undefined
        else Inr (inp\<lparr>grad := for_loop (length (data output))
                    (\<lambda>i ig. let t = data output ! i in ig[i := grad output ! i * (1 - t * t)])
                    (grad inp)\<rparr>))"

section \<open>mse_loss\<close>

definition mse_loss ::
  "'a::{zero,plus,minus,times,inverse} libm \<Rightarrow> 'a Tensor \<Rightarrow> 'a Tensor \<Rightarrow> error + 'a Tensor" where
  "mse_loss M pred target =
     (if length (data pred) \<noteq> length (data target) then Inl SizeMismatch
      else case resize (Tensor_new\<lparr>shape := [1]\<rparr>) of Inl e \<Rightarrow> Inl e | Inr loss \<Rightarrow>
        let acc = for_loop (length (data pred))
                    (\<lambda>i s. let diff = data pred ! i - data target ! i in s + diff * diff) 0
        in Inr (loss\<lparr>data := (data loss)[0 := acc / to_float M (length (data pred))]\<rparr>))"

section \<open>BatchNorm1d, BatchNorm2d, BatchNorm3d\<close>

text \<open>The three classes declare the same fields and have the same constructor.\<close>

record 'a BatchNorm =
  num_features :: nat
  eps :: 'a
  momentum :: 'a
  affine :: bool
  track_running_stats :: bool
  gamma :: "'a Tensor"
  beta :: "'a Tensor"
  running_mean :: "'a Tensor"
  running_var :: "'a Tensor"
  input_data :: "'a list"
  first_update :: bool

text \<open>
  The constructor. \<open>dis i\<close> is the \<open>i\<close>-th draw \<^verbatim>\<open>dis(gen)\<close> of the uniform distribution
  on [0.9, 1.1]. The \<^verbatim>\<open>resize\<close> calls throw for \<open>num_features = 0\<close>.
\<close>

definition BatchNorm_new_affine :: "nat \<Rightarrow> (nat \<Rightarrow> 'a) \<Rightarrow> error + 'a::zero Tensor \<times> 'a Tensor" where
  "BatchNorm_new_affine nf dis =
     (case resize (Tensor_new\<lparr>shape := [nf]\<rparr>) of Inl e \<Rightarrow> Inl e | Inr g1 \<Rightarrow>
     (case resize_grad g1 of Inl e \<Rightarrow> Inl e | Inr g2 \<Rightarrow>
     (case resize (Tensor_new\<lparr>shape := [nf]\<rparr>) of Inl e \<Rightarrow> Inl e | Inr b1 \<Rightarrow>
     (case resize_grad b1 of Inl e \<Rightarrow> Inl e | Inr b2 \<Rightarrow>
        Inr (for_loop nf (\<lambda>i (g, b). (g\<lparr>data := (data g)[i := dis i]\<rparr>,
                                        b\<lparr>data := (data b)[i := 0]\<rparr>)) (g2, b2))))))"

definition BatchNorm_new_running :: "nat \<Rightarrow> error + 'a::zero Tensor \<times> 'a Tensor" where
  "BatchNorm_new_running nf =
     (case resize (Tensor_new\<lparr>shape := [nf]\<rparr>) of Inl e \<Rightarrow> Inl e | Inr rm \<Rightarrow>
     (case resize (Tensor_new\<lparr>shape := [nf]\<rparr>) of Inl e \<Rightarrow> Inl e | Inr rv \<Rightarrow>
        Inr (rm, rv)))"

definition BatchNorm_new ::
  "nat \<Rightarrow> 'a \<Rightarrow> 'a \<Rightarrow> bool \<Rightarrow> bool \<Rightarrow> (nat \<Rightarrow> 'a) \<Rightarrow> error + 'a::zero BatchNorm" where
  "BatchNorm_new nf e m aff track dis =
     (case (if aff then BatchNorm_new_affine nf dis else Inr (Tensor_new, Tensor_new)) of
        Inl err \<Rightarrow> Inl err
      | Inr (g, b) \<Rightarrow>
     (case (if track then BatchNorm_new_running nf else Inr (Tensor_new, Tensor_new)) of
        Inl err \<Rightarrow> Inl err
      | Inr (rm, rv) \<Rightarrow>
          Inr \<lparr>num_features = nf, eps = e, momentum = m, affine = aff,
               track_running_stats = track, gamma = g, beta = b,
               running_mean = rm, running_var = rv, input_data = [], first_update = True\<rparr>))"

text \<open>
  The positions of one channel, in the order in which the loop nests of the source
  visit them: \<^verbatim>\<open>b * num_features + f\<close> for \<open>b\<close>; \<^verbatim>\<open>n*C*H*W + c*H*W + h*W + w\<close> for
  \<open>n\<close>, \<open>h\<close>, \<open>w\<close>; and \<^verbatim>\<open>n*C*D*H*W + c*D*H*W + d*H*W + h*W + w\<close> for \<open>n\<close>, \<open>d\<close>, \<open>h\<close>, \<open>w\<close>.
\<close>

definition idx1d :: "nat \<Rightarrow> nat \<Rightarrow> nat \<Rightarrow> nat list" where
  "idx1d batch_size nf f = [b * nf + f. b \<leftarrow> [0..<batch_size]]"

definition idx2d :: "nat \<Rightarrow> nat \<Rightarrow> nat \<Rightarrow> nat \<Rightarrow> nat \<Rightarrow> nat list" where
  "idx2d N C H W c =
     [n * C * H * W + c * H * W + h * W + w. n \<leftarrow> [0..<N], h \<leftarrow> [0..<H], w \<leftarrow> [0..<W]]"

definition idx3d :: "nat \<Rightarrow> nat \<Rightarrow> nat \<Rightarrow> nat \<Rightarrow> nat \<Rightarrow> nat \<Rightarrow> nat list" where
  "idx3d N C D H W c =
     [n * C * D * H * W + c * D * H * W + d * H * W + h * W + w.
        n \<leftarrow> [0..<N], d \<leftarrow> [0..<D], h \<leftarrow> [0..<H], w \<leftarrow> [0..<W]]"

text \<open>
  The body of the channel loop is the same text in the three classes, up to the loop
  nest that enumerates the positions. \<open>x\<close> is the input buffer, \<open>idxs\<close> the positions
  of the channel and \<open>count\<close> the number the sums are divided by.
\<close>

definition channel_mean :: "'a::{zero,plus,inverse} libm \<Rightarrow> 'a list \<Rightarrow> nat list \<Rightarrow> nat \<Rightarrow> 'a" where
  "channel_mean M x idxs count = foldl (\<lambda>mean idx. mean + x ! idx) 0 idxs / to_float M count"

definition channel_var ::
  "'a::{zero,plus,minus,times,inverse} libm \<Rightarrow> 'a list \<Rightarrow> nat list \<Rightarrow> nat \<Rightarrow> 'a \<Rightarrow> 'a" where
  "channel_var M x idxs count mean =
     foldl (\<lambda>var idx. let diff = x ! idx - mean in var + diff * diff) 0 idxs / to_float M count"

definition BatchNorm_forward_channel ::
  "'a::{zero,one,plus,minus,times,inverse} libm \<Rightarrow> 'a BatchNorm \<Rightarrow> 'a list \<Rightarrow> nat list \<Rightarrow> nat
     \<Rightarrow> nat \<Rightarrow> 'a list \<times> 'a list \<times> 'a list \<Rightarrow> 'a list \<times> 'a list \<times> 'a list" where
  "BatchNorm_forward_channel M bn x idxs count c = (\<lambda>(rm, rv, od).
     let mean = channel_mean M x idxs count;
         var = channel_var M x idxs count mean;
         rm' = (if track_running_stats bn
                then (if first_update bn then rm[c := mean]
                      else rm[c := (1 - momentum bn) * rm ! c + momentum bn * mean])
                else rm);
         rv' = (if track_running_stats bn
                then (if first_update bn then rv[c := var]
                      else rv[c := (1 - momentum bn) * rv ! c + momentum bn * var])
                else rv);
         inv_std = 1 / sqrtf M (var + eps bn);
         od' = fold (\<lambda>idx out.
                  let x_hat = (x ! idx - mean) * inv_std
                  in out[idx := (if affine bn
                                 then data (gamma bn) ! c * x_hat + data (beta bn) ! c
                                 else x_hat)]) idxs od
     in (rm', rv', od'))"

text \<open>
  The buffers the channel loops index: \<open>numel\<close> positions of the input and of the
  output, and \<open>num_features\<close> entries of each parameter that is in use.
\<close>

definition BatchNorm_forward_in_bounds :: "'a BatchNorm \<Rightarrow> nat \<Rightarrow> 'a list \<Rightarrow> 'a list \<Rightarrow> bool" where
  "BatchNorm_forward_in_bounds bn numel x od =
     (numel \<le> length x \<and> numel \<le> length od
      \<and> (track_running_stats bn \<longrightarrow>
            num_features bn \<le> length (data (running_mean bn))
            \<and> num_features bn \<le> length (data (running_var bn)))
      \<and> (affine bn \<longrightarrow>
            num_features bn \<le> length (data (gamma bn))
            \<and> num_features bn \<le> length (data (beta bn))))"

definition BatchNorm_forward_loops ::
  "'a::{zero,one,plus,minus,times,inverse} libm \<Rightarrow> 'a BatchNorm \<Rightarrow> 'a Tensor \<Rightarrow> 'a Tensor
     \<Rightarrow> (nat \<Rightarrow> nat list) \<Rightarrow> nat \<Rightarrow> 'a BatchNorm \<times> 'a Tensor" where
  "BatchNorm_forward_loops M bn input out idxs count =
     (let (rm, rv, od) =
            for_loop (num_features bn)
              (\<lambda>c. BatchNorm_forward_channel M bn (data input) (idxs c) count c)
              (data (running_mean bn), data (running_var bn), data out)
      in (bn\<lparr>running_mean := (running_mean bn)\<lparr>data := rm\<rparr>,
             running_var := (running_var bn)\<lparr>data := rv\<rparr>,
             input_data := data input,
             first_update := False\<rparr>,
          out\<lparr>data := od\<rparr>))"

definition BatchNorm1d_forward ::
  "'a::{zero,one,plus,minus,times,inverse} libm \<Rightarrow> 'a BatchNorm \<Rightarrow> 'a Tensor \<Rightarrow> 'a Tensor
     \<Rightarrow> error + 'a BatchNorm \<times> 'a Tensor" where
  "BatchNorm1d_forward M bn input output =
     (if length (shape input) \<noteq> 2 \<or> shape input ! 1 \<noteq> num_features bn then Inl ShapeMismatch
      else
        let batch_size = shape input ! 0
        in case resize (output\<lparr>shape := [batch_size, num_features bn]\<rparr>) of
             Inl e \<Rightarrow> Inl e
           | Inr out \<Rightarrow>
               if \<not> BatchNorm_forward_in_bounds bn (batch_size * num_features bn)
                      (data input) (data out)
               then Inl Undefined
               else Inr (BatchNorm_forward_loops M bn input out
                           (idx1d batch_size (num_features bn)) batch_size))"

definition BatchNorm2d_forward ::
  "'a::{zero,one,plus,minus,times,inverse} libm \<Rightarrow> 'a BatchNorm \<Rightarrow> 'a Tensor \<Rightarrow> 'a Tensor
     \<Rightarrow> error + 'a BatchNorm \<times> 'a Tensor" where
  "BatchNorm2d_forward M bn input output =
     (if length (shape input) \<noteq> 4 then Inl ShapeMismatch
      else if shape input ! 1 \<noteq> num_features bn then Inl ShapeMismatch
      else case Tensor_size input of Inl e \<Rightarrow> Inl e | Inr sz \<Rightarrow>
        if length (data input) \<noteq> sz then Inl IllegalState
        else
          let N = shape input ! 0; C = shape input ! 1; H = shape input ! 2; W = shape input ! 3
          in (case resize (output\<lparr>shape := [N, C, H, W]\<rparr>) of
               Inl e \<Rightarrow> Inl e
             | Inr out \<Rightarrow>
                 if \<not> BatchNorm_forward_in_bounds bn (N * C * H * W) (data input) (data out)
                 then Inl Undefined
                 else Inr (BatchNorm_forward_loops M bn input out (idx2d N C H W) (N * H * W))))"

definition BatchNorm3d_forward ::
  "'a::{zero,one,plus,minus,times,inverse} libm \<Rightarrow> 'a BatchNorm \<Rightarrow> 'a Tensor \<Rightarrow> 'a Tensor
     \<Rightarrow> error + 'a BatchNorm \<times> 'a Tensor" where
  "BatchNorm3d_forward M bn input output =
     (if length (shape input) \<noteq> 5 then Inl ShapeMismatch
      else if shape input ! 1 \<noteq> num_features bn then Inl ShapeMismatch
      else case Tensor_size input of Inl e \<Rightarrow> Inl e | Inr sz \<Rightarrow>
        if length (data input) \<noteq> sz then Inl IllegalState
        else
          let N = shape input ! 0; C = shape input ! 1; D = shape input ! 2;
              H = shape input ! 3; W = shape input ! 4
          in (case resize (output\<lparr>shape := [N, C, D, H, W]\<rparr>) of
               Inl e \<Rightarrow> Inl e
             | Inr out \<Rightarrow>
                 if \<not> BatchNorm_forward_in_bounds bn (N * C * D * H * W) (data input) (data out)
                 then Inl Undefined
                 else Inr (BatchNorm_forward_loops M bn input out
                             (idx3d N C D H W) (N * D * H * W))))"

text \<open>
  The channel loop of \<^verbatim>\<open>backward\<close>: \<open>x\<close> is the cached \<open>input_data\<close>, \<open>dy\<close> the
  \<open>grad\<close> buffer of the upstream tensor. The state is \<open>grad_input.grad\<close>, \<open>gamma.grad\<close>
  and \<open>beta.grad\<close>. The source keeps \<open>x_hat\<close> in a vector filled in visiting order and
  read back in the same order; the value at a position is written here as a function
  of the position.
\<close>

definition BatchNorm_backward_channel ::
  "'a::{zero,one,plus,minus,times,inverse} libm \<Rightarrow> 'a BatchNorm \<Rightarrow> 'a list \<Rightarrow> 'a list \<Rightarrow> nat list
     \<Rightarrow> nat \<Rightarrow> nat \<Rightarrow> 'a list \<times> 'a list \<times> 'a list \<Rightarrow> 'a list \<times> 'a list \<times> 'a list" where
  "BatchNorm_backward_channel M bn x dy idxs count c =
     (let mean = channel_mean M x idxs count;
          var = channel_var M x idxs count mean;
          inv_std = 1 / sqrtf M (var + eps bn);
          x_hat = (\<lambda>idx. (x ! idx - mean) * inv_std);
          sum_dy = foldl (\<lambda>s idx. s + dy ! idx) 0 idxs;
          sum_dy_x_hat = foldl (\<lambda>s idx. s + dy ! idx * x_hat idx) 0 idxs;
          factor = to_float M count;
          gamma_val = (if affine bn then data (gamma bn) ! c else 1)
      in fold (\<lambda>idx (gi, gg, bg).
           let dyv = dy ! idx;
               term1 = dyv * inv_std * gamma_val;
               term2 = inv_std * sum_dy / factor * gamma_val;
               term3 = inv_std * x_hat idx * sum_dy_x_hat / factor * gamma_val
           in (gi[idx := term1 - term2 - term3],
               (if affine bn then gg[c := gg ! c + dyv * x_hat idx] else gg),
               (if affine bn then bg[c := bg ! c + dyv] else bg))) idxs)"

definition BatchNorm_backward_in_bounds ::
  "'a BatchNorm \<Rightarrow> nat \<Rightarrow> 'a list \<Rightarrow> 'a list \<Rightarrow> bool" where
  "BatchNorm_backward_in_bounds bn numel dy gi =
     (numel \<le> length (input_data bn) \<and> numel \<le> length dy \<and> numel \<le> length gi
      \<and> (affine bn \<longrightarrow>
            num_features bn \<le> length (data (gamma bn))
            \<and> num_features bn \<le> length (grad (gamma bn))
            \<and> num_features bn \<le> length (grad (beta bn))))"

definition BatchNorm_backward_loops ::
  "'a::{zero,one,plus,minus,times,inverse} libm \<Rightarrow> 'a BatchNorm \<Rightarrow> 'a Tensor \<Rightarrow> 'a Tensor
     \<Rightarrow> (nat \<Rightarrow> nat list) \<Rightarrow> nat \<Rightarrow> 'a BatchNorm \<times> 'a Tensor" where
  "BatchNorm_backward_loops M bn grad_output gi idxs count =
     (let (ig, gg, bg) =
            for_loop (num_features bn)
              (\<lambda>c. BatchNorm_backward_channel M bn (input_data bn) (grad grad_output)
                      (idxs c) count c)
              (grad gi, grad (gamma bn), grad (beta bn))
      in (bn\<lparr>gamma := (gamma bn)\<lparr>grad := gg\<rparr>, beta := (beta bn)\<lparr>grad := bg\<rparr>\<rparr>,
          gi\<lparr>grad := ig\<rparr>))"

definition BatchNorm1d_backward ::
  "'a::{zero,one,plus,minus,times,inverse} libm \<Rightarrow> 'a BatchNorm \<Rightarrow> 'a Tensor \<Rightarrow> 'a Tensor
     \<Rightarrow> error + 'a BatchNorm \<times> 'a Tensor" where
  "BatchNorm1d_backward M bn grad_output grad_input =
     (if length (shape grad_output) \<noteq> 2 \<or> shape grad_output ! 1 \<noteq> num_features bn
      then Inl ShapeMismatch
      else if grad grad_output = [] then Inl IllegalState
      else if input_data bn = [] then Inl IllegalState
      else if length (input_data bn) \<noteq> size_t_mul (shape grad_output ! 0) (num_features bn)
      then Inl IllegalState
      else
        let batch_size = shape grad_output ! 0
        in (case resize (grad_input\<lparr>shape := [batch_size, num_features bn]\<rparr>) of
              Inl e \<Rightarrow> Inl e
            | Inr gi1 \<Rightarrow>
           (case resize_grad gi1 of
              Inl e \<Rightarrow> Inl e
            | Inr gi2 \<Rightarrow>
                if \<not> BatchNorm_backward_in_bounds bn (batch_size * num_features bn)
                       (grad grad_output) (grad gi2)
                then Inl Undefined
                else Inr (BatchNorm_backward_loops M bn grad_output gi2
                            (idx1d batch_size (num_features bn)) batch_size))))"

text \<open>\<^verbatim>\<open>std::fill(gamma.grad.begin(), gamma.grad.end(), 0.0f)\<close> and the same for \<open>beta\<close>.\<close>

definition BatchNorm_fill_grads :: "'a::zero BatchNorm \<Rightarrow> 'a BatchNorm" where
  "BatchNorm_fill_grads bn =
     (if affine bn
      then bn\<lparr>gamma := (gamma bn)\<lparr>grad := map (\<lambda>_. 0) (grad (gamma bn))\<rparr>,
              beta := (beta bn)\<lparr>grad := map (\<lambda>_. 0) (grad (beta bn))\<rparr>\<rparr>
      else bn)"

definition BatchNorm2d_backward ::
  "'a::{zero,one,plus,minus,times,inverse} libm \<Rightarrow> 'a BatchNorm \<Rightarrow> 'a Tensor \<Rightarrow> 'a Tensor
     \<Rightarrow> error + 'a BatchNorm \<times> 'a Tensor" where
  "BatchNorm2d_backward M bn grad_output grad_input =
     (if input_data bn = [] then Inl IllegalState
      else if length (shape grad_output) \<noteq> 4 \<or> shape grad_output ! 1 \<noteq> num_features bn
      then Inl ShapeMismatch
      else if grad grad_output = [] then Inl IllegalState
      else if length (input_data bn) \<noteq>
                size_t_mul (size_t_mul (size_t_mul (shape grad_output ! 0) (num_features bn))
                              (shape grad_output ! 2)) (shape grad_output ! 3)
      then Inl IllegalState
      else if affine bn \<and> (length (grad (gamma bn)) \<noteq> num_features bn
                            \<or> length (grad (beta bn)) \<noteq> num_features bn)
      then Inl IllegalState
      else
        let N = shape grad_output ! 0; C = shape grad_output ! 1;
            H = shape grad_output ! 2; W = shape grad_output ! 3
        in (case resize (grad_input\<lparr>shape := [N, C, H, W]\<rparr>) of
              Inl e \<Rightarrow> Inl e
            | Inr gi1 \<Rightarrow>
           (case resize_grad gi1 of
              Inl e \<Rightarrow> Inl e
            | Inr gi2 \<Rightarrow>
                if \<not> BatchNorm_backward_in_bounds bn (N * C * H * W) (grad grad_output) (grad gi2)
                then Inl Undefined
                else Inr (BatchNorm_backward_loops M (BatchNorm_fill_grads bn) grad_output gi2
                            (idx2d N C H W) (N * H * W)))))"

definition BatchNorm3d_backward ::
  "'a::{zero,one,plus,minus,times,inverse} libm \<Rightarrow> 'a BatchNorm \<Rightarrow> 'a Tensor \<Rightarrow> 'a Tensor
     \<Rightarrow> error + 'a BatchNorm \<times> 'a Tensor" where
  "BatchNorm3d_backward M bn grad_output grad_input =
     (if input_data bn = [] then Inl IllegalState
      else if length (shape grad_output) \<noteq> 5 \<or> shape grad_output ! 1 \<noteq> num_features bn
      then Inl ShapeMismatch
      else if grad grad_output = [] then Inl IllegalState
      else if length (input_data bn) \<noteq>
                size_t_mul (size_t_mul (size_t_mul (size_t_mul (shape grad_output ! 0)
                  (num_features bn)) (shape grad_output ! 2)) (shape grad_output ! 3))
                  (shape grad_output ! 4)
      then Inl IllegalState
      else if affine bn \<and> (length (grad (gamma bn)) \<noteq> num_features bn
                            \<or> length (grad (beta bn)) \<noteq> num_features bn)
      then Inl IllegalState
      else
        let N = shape grad_output ! 0; C = shape grad_output ! 1; D = shape grad_output ! 2;
            H = shape grad_output ! 3; W = shape grad_output ! 4
        in (case resize (grad_input\<lparr>shape := [N, C, D, H, W]\<rparr>) of
              Inl e \<Rightarrow> Inl e
            | Inr gi1 \<Rightarrow>
           (case resize_grad gi1 of
              Inl e \<Rightarrow> Inl e
            | Inr gi2 \<Rightarrow>
                if \<not> BatchNorm_backward_in_bounds bn (N * C * D * H * W)
                       (grad grad_output) (grad gi2)
                then Inl Undefined
                else Inr (BatchNorm_backward_loops M (BatchNorm_fill_grads bn) grad_output gi2
                            (idx3d N C D H W) (N * D * H * W)))))"

section \<open>Layer and Model\<close>

text \<open>
  The subclasses of \<^verbatim>\<open>Layer\<close> are the constructors of a datatype, and a virtual call
  is a case distinction. A call returns the layer, which \<^verbatim>\<open>forward\<close> and \<^verbatim>\<open>backward\<close>
  may change, and the tensor passed by mutable reference.
\<close>

datatype 'a Layer =
    Linear "'a Linear"
  | ReLU
  | Sigmoid
  | Tanh
  | BatchNorm1d "'a BatchNorm"
  | BatchNorm2d "'a BatchNorm"
  | BatchNorm3d "'a BatchNorm"

definition with_layer :: "('l \<Rightarrow> 'a Layer) \<Rightarrow> error + 'l \<times> 'a Tensor \<Rightarrow> error + 'a Layer \<times> 'a Tensor" where
  "with_layer mk r = (case r of Inl e \<Rightarrow> Inl e | Inr (l, t) \<Rightarrow> Inr (mk l, t))"

definition same_layer :: "'a Layer \<Rightarrow> error + 'a Tensor \<Rightarrow> error + 'a Layer \<times> 'a Tensor" where
  "same_layer l r = (case r of Inl e \<Rightarrow> Inl e | Inr t \<Rightarrow> Inr (l, t))"


fun Layer_backward ::
  "'a::{zero,one,plus,minus,uminus,times,inverse,ord} libm \<Rightarrow> 'a Layer \<Rightarrow> 'a Tensor \<Rightarrow> 'a Tensor
     \<Rightarrow> error + 'a Layer \<times> 'a Tensor" where
  "Layer_backward M (Linear l) output input = with_layer Linear (Linear_backward l output input)"
| "Layer_backward M ReLU output input = same_layer ReLU (ReLU_backward output input)"
| "Layer_backward M Sigmoid output input = same_layer Sigmoid (Sigmoid_backward output input)"
| "Layer_backward M Tanh output input = same_layer Tanh (Tanh_backward output input)"
| "Layer_backward M (BatchNorm1d bn) output input =
     with_layer BatchNorm1d (BatchNorm1d_backward M bn output input)"
| "Layer_backward M (BatchNorm2d bn) output input =
     with_layer BatchNorm2d (BatchNorm2d_backward M bn output input)"
| "Layer_backward M (BatchNorm3d bn) output input =
     with_layer BatchNorm3d (BatchNorm3d_backward M bn output input)"

record 'a Model =
  layers :: "'a Layer list"
  activations :: "'a Tensor list"

definition Model_new :: "'a Model" where
  "Model_new = \<lparr>layers = [], activations = []\<rparr>"

definition add_layer :: "'a Model \<Rightarrow> 'a Layer \<Rightarrow> 'a Model" where
  "add_layer m layer = m\<lparr>layers := layers m @ [layer]\<rparr>"



text \<open>
  The loop of \<^verbatim>\<open>Model::backward\<close> runs \<^verbatim>\<open>int i\<close> from \<^verbatim>\<open>layers.size() - 1\<close> down to 0
  (the number of layers fits an \<^verbatim>\<open>int\<close>). The state is the layers, the activations and
  the caller's \<open>input\<close>.
\<close>

fun Model_backward_loop ::
  "'a::{zero,one,plus,minus,uminus,times,inverse,ord} libm \<Rightarrow> nat list
     \<Rightarrow> 'a Layer list \<times> 'a Tensor list \<times> 'a Tensor \<Rightarrow> 'a Tensor
     \<Rightarrow> error + ('a Layer list \<times> 'a Tensor list \<times> 'a Tensor)" where
  "Model_backward_loop M [] s current = Inr s"
| "Model_backward_loop M (i # rest) (ls, acts, input) current =
     (case Layer_backward M (ls ! i) current (if 0 < i then acts ! (i - 1) else input) of
        Inl e \<Rightarrow> Inl e
      | Inr (l', prev) \<Rightarrow>
          Model_backward_loop M rest
            (ls[i := l'],
             (if 0 < i then acts[i - 1 := prev] else acts),
             (if 0 < i then input else prev))
            prev)"

definition Model_backward ::
  "'a::{zero,one,plus,minus,uminus,times,inverse,ord} libm \<Rightarrow> 'a Model \<Rightarrow> 'a Tensor \<Rightarrow> 'a Tensor
     \<Rightarrow> error + 'a Model \<times> 'a Tensor" where
  "Model_backward M m output input =
     (if length (activations m) \<noteq> size_t_sub (length (layers m)) 1 then Inl IllegalState
      else case Model_backward_loop M (rev [0..<length (layers m)])
                  (layers m, activations m, input) output of
             Inl e \<Rightarrow> Inl e
           | Inr (ls, acts, inp) \<Rightarrow> Inr (\<lparr>layers = ls, activations = acts\<rparr>, inp))"

section \<open>Three interpretations of the scalars\<close>

text \<open>
  Exact arithmetic on the reals: the reading under which the reference values of the
  test suite are stated. Division by zero does not occur where it is used below.
\<close>

definition real_libm :: "real libm" where
  "real_libm = \<lparr>to_float = real, sqrtf = sqrt, expf = exp, tanhf = tanh\<rparr>"

text \<open>
  IEEE 754 values without rounding: the finite values are the reals, and the
  exceptional results of the standard are kept: a non-zero value divided by zero is an
  infinity, \<open>0 / 0\<close>, \<open>\<infinity> - \<infinity>\<close> and \<open>0 * \<infinity>\<close> are NaN, and NaN propagates. The sign of
  zero is not represented (a zero divisor counts as \<open>+0\<close>). Computations on this type
  agree with binary32 whenever every intermediate result is representable in binary32.
\<close>

datatype xfloat = Finite real | PInf | NInf | NaN

fun xfloat_add :: "xfloat \<Rightarrow> xfloat \<Rightarrow> xfloat" where
  "xfloat_add (Finite a) (Finite b) = Finite (a + b)"
| "xfloat_add NaN _ = NaN"
| "xfloat_add _ NaN = NaN"
| "xfloat_add PInf NInf = NaN"
| "xfloat_add NInf PInf = NaN"
| "xfloat_add PInf _ = PInf"
| "xfloat_add _ PInf = PInf"
| "xfloat_add NInf _ = NInf"
| "xfloat_add _ NInf = NInf"

fun xfloat_neg :: "xfloat \<Rightarrow> xfloat" where
  "xfloat_neg (Finite a) = Finite (- a)"
| "xfloat_neg PInf = NInf"
| "xfloat_neg NInf = PInf"
| "xfloat_neg NaN = NaN"

text \<open>\<open>xfloat_sign x\<close>: \<open>Some True\<close> for a positive value, \<open>Some False\<close> for a negative one.\<close>

fun xfloat_sign :: "xfloat \<Rightarrow> bool option" where
  "xfloat_sign (Finite a) = (if a = 0 then None else Some (0 < a))"
| "xfloat_sign PInf = Some True"
| "xfloat_sign NInf = Some False"
| "xfloat_sign NaN = None"

fun xfloat_mul :: "xfloat \<Rightarrow> xfloat \<Rightarrow> xfloat" where
  "xfloat_mul (Finite a) (Finite b) = Finite (a * b)"
| "xfloat_mul NaN _ = NaN"
| "xfloat_mul _ NaN = NaN"
| "xfloat_mul x y =
     (case (xfloat_sign x, xfloat_sign y) of
        (Some s, Some t) \<Rightarrow> (if s = t then PInf else NInf)
      | _ \<Rightarrow> NaN)"

fun xfloat_div :: "xfloat \<Rightarrow> xfloat \<Rightarrow> xfloat" where
  "xfloat_div (Finite a) (Finite b) =
     (if b \<noteq> 0 then Finite (a / b)
      else if a = 0 then NaN
      else if 0 < a then PInf else NInf)"
| "xfloat_div NaN _ = NaN"
| "xfloat_div _ NaN = NaN"
| "xfloat_div (Finite a) _ = Finite 0"
| "xfloat_div PInf (Finite b) = (if 0 \<le> b then PInf else NInf)"
| "xfloat_div NInf (Finite b) = (if 0 \<le> b then NInf else PInf)"
| "xfloat_div _ _ = NaN"

fun xfloat_sqrt :: "xfloat \<Rightarrow> xfloat" where
  "xfloat_sqrt (Finite a) = (if a < 0 then NaN else Finite (sqrt a))"
| "xfloat_sqrt PInf = PInf"
| "xfloat_sqrt NInf = NaN"
| "xfloat_sqrt NaN = NaN"

fun xfloat_exp :: "xfloat \<Rightarrow> xfloat" where
  "xfloat_exp (Finite a) = Finite (exp a)"
| "xfloat_exp PInf = PInf"
| "xfloat_exp NInf = Finite 0"
| "xfloat_exp NaN = NaN"

fun xfloat_tanh :: "xfloat \<Rightarrow> xfloat" where
  "xfloat_tanh (Finite a) = Finite (tanh a)"
| "xfloat_tanh PInf = Finite 1"
| "xfloat_tanh NInf = Finite (- 1)"
| "xfloat_tanh NaN = NaN"

instantiation xfloat :: "{zero,one,plus,minus,uminus,times,inverse}"
begin

definition zero_xfloat :: xfloat where "zero_xfloat = Finite 0"
definition one_xfloat :: xfloat where "one_xfloat = Finite 1"
definition plus_xfloat :: "xfloat \<Rightarrow> xfloat \<Rightarrow> xfloat" where "plus_xfloat = xfloat_add"
definition uminus_xfloat :: "xfloat \<Rightarrow> xfloat" where "uminus_xfloat = xfloat_neg"
definition minus_xfloat :: "xfloat \<Rightarrow> xfloat \<Rightarrow> xfloat" where
  "minus_xfloat x y = xfloat_add x (xfloat_neg y)"
definition times_xfloat :: "xfloat \<Rightarrow> xfloat \<Rightarrow> xfloat" where "times_xfloat = xfloat_mul"
definition divide_xfloat :: "xfloat \<Rightarrow> xfloat \<Rightarrow> xfloat" where "divide_xfloat = xfloat_div"
definition inverse_xfloat :: "xfloat \<Rightarrow> xfloat" where
  "inverse_xfloat x = xfloat_div (Finite 1) x"

instance ..

end

definition xfloat_libm :: "xfloat libm" where
  "xfloat_libm = \<lparr>to_float = (\<lambda>n. Finite (real n)), sqrtf = xfloat_sqrt,
                   expf = xfloat_exp, tanhf = xfloat_tanh\<rparr>"

text \<open>
  IEEE 754 binary32 with its rounding, the format of \<^verbatim>\<open>float\<close>. A finite value is
  \<open>Fin32 s u\<close>, the number \<open>s * 2\<^sup>u\<close> with a significand of at most 24 bits and the
  exponent of its last place: \<open>\<bar>s\<bar> < 2\<^sup>2\<^sup>4\<close> and \<open>-149 \<le> u \<le> 104\<close>, and \<open>2\<^sup>2\<^sup>3 \<le> \<bar>s\<bar>\<close> unless
  \<open>u = -149\<close> (zero and the subnormal numbers), so that every value has one
  representation. The sign of zero is not represented. Addition and multiplication
  compute the exact result and round it to the nearest value, ties to the even
  significand; each operation is rounded on its own, as the source is written (no
  fused multiply-add).
\<close>

datatype binary32 = Fin32 int int | PInf32 | NInf32 | NaN32

text \<open>The number of binary digits of a natural number.\<close>

fun bit_length :: "nat \<Rightarrow> nat" where
  "bit_length n = (if n = 0 then 0 else Suc (bit_length (n div 2)))"

declare bit_length.simps [simp del]

text \<open>\<open>a / 2\<^sup>k\<close> rounded to the nearest integer, a tie to the even one.\<close>

definition round_half_even :: "nat \<Rightarrow> nat \<Rightarrow> nat" where
  "round_half_even a k =
     (let q = a div 2 ^ k; r = a mod 2 ^ k
      in if 2 ^ k < 2 * r \<or> (2 * r = 2 ^ k \<and> odd q) then q + 1 else q)"

text \<open>
  The binary32 value nearest to \<open>m * 2\<^sup>e\<close>. The last place \<open>u\<close> of the result is 23
  binary places below the leading digit of \<open>m * 2\<^sup>e\<close>, and not below \<open>-149\<close>; a
  significand that rounds up to \<open>2\<^sup>2\<^sup>4\<close> moves to the next exponent, and a result of
  \<open>2\<^sup>1\<^sup>2\<^sup>8\<close> or more is an infinity.
\<close>

definition round_binary32 :: "int \<Rightarrow> int \<Rightarrow> binary32" where
  "round_binary32 m e =
     (if m = 0 then Fin32 0 (- 149)
      else
        let a = nat \<bar>m\<bar>;
            u = max (e + int (bit_length a) - 24) (- 149);
            s = (if u \<le> e then a * 2 ^ nat (e - u) else round_half_even a (nat (u - e)));
            s' = (if s = 2 ^ 24 then 2 ^ 23 else s);
            u' = (if s = 2 ^ 24 then u + 1 else u)
        in if 104 < u' then (if 0 < m then PInf32 else NInf32)
           else Fin32 (if 0 < m then int s' else - int s') u')"

text \<open>
  The binary32 value nearest to the fraction \<open>p / q\<close> (\<open>q \<noteq> 0\<close>), which is the value of a
  decimal literal such as \<^verbatim>\<open>0.1f\<close>: the quotient is computed to at least 27 binary
  digits, a last digit records whether the division left a remainder, and the result
  is rounded.
\<close>

definition binary32_of_ratio :: "int \<Rightarrow> int \<Rightarrow> binary32" where
  "binary32_of_ratio p q =
     (let a = nat \<bar>p\<bar>; b = nat \<bar>q\<bar>;
          k = nat (27 + int (bit_length b) - int (bit_length a));
          n = (a * 2 ^ k) div b;
          sticky = (if (a * 2 ^ k) mod b = 0 then 0 else 1);
          m = int (2 * n + sticky)
      in round_binary32 (if (0 < p) = (0 < q) then m else - m) (- int k - 1))"

fun binary32_add :: "binary32 \<Rightarrow> binary32 \<Rightarrow> binary32" where
  "binary32_add (Fin32 s1 u1) (Fin32 s2 u2) =
     (let u = min u1 u2 in round_binary32 (s1 * 2 ^ nat (u1 - u) + s2 * 2 ^ nat (u2 - u)) u)"
| "binary32_add NaN32 _ = NaN32"
| "binary32_add _ NaN32 = NaN32"
| "binary32_add PInf32 NInf32 = NaN32"
| "binary32_add NInf32 PInf32 = NaN32"
| "binary32_add PInf32 _ = PInf32"
| "binary32_add _ PInf32 = PInf32"
| "binary32_add NInf32 _ = NInf32"
| "binary32_add _ NInf32 = NInf32"

fun binary32_sign :: "binary32 \<Rightarrow> bool option" where
  "binary32_sign (Fin32 s u) = (if s = 0 then None else Some (0 < s))"
| "binary32_sign PInf32 = Some True"
| "binary32_sign NInf32 = Some False"
| "binary32_sign NaN32 = None"

fun binary32_mul :: "binary32 \<Rightarrow> binary32 \<Rightarrow> binary32" where
  "binary32_mul (Fin32 s1 u1) (Fin32 s2 u2) = round_binary32 (s1 * s2) (u1 + u2)"
| "binary32_mul NaN32 _ = NaN32"
| "binary32_mul _ NaN32 = NaN32"
| "binary32_mul x y =
     (case (binary32_sign x, binary32_sign y) of
        (Some s, Some t) \<Rightarrow> (if s = t then PInf32 else NInf32)
      | _ \<Rightarrow> NaN32)"

instantiation binary32 :: "{zero,plus,times}"
begin

definition zero_binary32 :: binary32 where "zero_binary32 = Fin32 0 (- 149)"
definition plus_binary32 :: "binary32 \<Rightarrow> binary32 \<Rightarrow> binary32" where
  "plus_binary32 = binary32_add"
definition times_binary32 :: "binary32 \<Rightarrow> binary32 \<Rightarrow> binary32" where
  "times_binary32 = binary32_mul"

instance ..

end

text \<open>The number a binary32 value stands for.\<close>

fun binary32_value :: "binary32 \<Rightarrow> xfloat" where
  "binary32_value (Fin32 s u) =
     Finite (if 0 \<le> u then real_of_int s * 2 ^ nat u else real_of_int s / 2 ^ nat (- u))"
| "binary32_value PInf32 = PInf"
| "binary32_value NInf32 = NInf"
| "binary32_value NaN32 = NaN"

text \<open>\<open>x\<close> is finite and at most \<open>tol\<close> away from \<open>r\<close>, the check of \<^verbatim>\<open>EXPECT_NEAR\<close>.\<close>

definition binary32_near :: "binary32 \<Rightarrow> real \<Rightarrow> real \<Rightarrow> bool" where
  "binary32_near x r tol \<longleftrightarrow>
     (case binary32_value x of Finite v \<Rightarrow> \<bar>v - r\<bar> \<le> tol | PInf \<Rightarrow> False | NInf \<Rightarrow> False
      | NaN \<Rightarrow> False)"

text \<open>
  The layer and the input of the test \<^verbatim>\<open>LayerTest.LinearVSTorch\<close>: \<^verbatim>\<open>Linear(3, 2)\<close>
  with \<^verbatim>\<open>weight.data = {0.1f, 0.2f, 0.3f, 0.4f, 0.5f, 0.6f}\<close> and
  \<^verbatim>\<open>bias.data = {0.1f, 0.2f}\<close>, and an input of shape \<open>[2, 3]\<close> with
  \<^verbatim>\<open>data = {0.1f, 0.2f, 0.3f, 0.4f, 0.5f, 0.6f}\<close> and a sized \<open>grad\<close>.
\<close>

definition LinearVSTorch_linear :: "binary32 Linear" where
  "LinearVSTorch_linear =
     \<lparr>weight = \<lparr>shape = [3, 2],
                 data = [binary32_of_ratio 1 10, binary32_of_ratio 2 10, binary32_of_ratio 3 10,
                         binary32_of_ratio 4 10, binary32_of_ratio 5 10, binary32_of_ratio 6 10],
                 grad = []\<rparr>,
      bias = \<lparr>shape = [2], data = [binary32_of_ratio 1 10, binary32_of_ratio 2 10],
               grad = []\<rparr>\<rparr>"

definition LinearVSTorch_input :: "binary32 Tensor" where
  "LinearVSTorch_input =
     \<lparr>shape = [2, 3],
      data = [binary32_of_ratio 1 10, binary32_of_ratio 2 10, binary32_of_ratio 3 10,
              binary32_of_ratio 4 10, binary32_of_ratio 5 10, binary32_of_ratio 6 10],
      grad = [0, 0, 0, 0, 0, 0]\<rparr>"

section \<open>Batch statistics in the words of the specification\<close>

text \<open>
  The specification speaks of the batch mean and of the biased (divide-by-N) variance
  of the values of one channel, and of the exponential moving average of the running
  statistics. \<open>xs\<close> is the list of the values of the channel; a sum is taken from 0 in
  the order of the list.
\<close>

definition batch_mean :: "'a::{zero,plus,inverse} libm \<Rightarrow> 'a list \<Rightarrow> 'a" where
  "batch_mean M xs = foldl (+) 0 xs / to_float M (length xs)"

definition batch_var :: "'a::{zero,plus,minus,times,inverse} libm \<Rightarrow> 'a list \<Rightarrow> 'a" where
  "batch_var M xs =
     foldl (+) 0 (map (\<lambda>x. (x - batch_mean M xs) * (x - batch_mean M xs)) xs)
       / to_float M (length xs)"


text \<open>
  The normalised value \<open>x_hat\<close> of a value \<open>v\<close> of a channel with values \<open>xs\<close>, as the
  source computes it: the difference to the batch mean, multiplied by
  \<open>inv_std = 1 / sqrt(var + eps)\<close>.
\<close>

definition x_hat ::
  "'a::{zero,one,plus,minus,times,inverse} libm \<Rightarrow> 'a \<Rightarrow> 'a list \<Rightarrow> 'a \<Rightarrow> 'a" where
  "x_hat M e xs v = (v - batch_mean M xs) * (1 / sqrtf M (batch_var M xs + e))"

text \<open>The values of the input buffer \<open>x\<close> at a list of positions.\<close>

definition values_at :: "'a list \<Rightarrow> nat list \<Rightarrow> 'a list" where
  "values_at x idxs = map (\<lambda>idx. x ! idx) idxs"

text \<open>
  The per-channel sums of \<^verbatim>\<open>backward\<close>, added onto a start value \<open>z\<close> in the order of the
  positions \<open>idxs\<close> of the channel: the sum of \<open>dy\<close>, and the sum of \<open>dy * x_hat\<close>, where
  \<open>dy\<close> is the \<open>grad\<close> buffer of the upstream tensor and \<open>x_hat\<close> is recomputed from the
  input that the forward call cached.
\<close>

definition sum_dy :: "'a::plus Tensor \<Rightarrow> nat list \<Rightarrow> 'a \<Rightarrow> 'a" where
  "sum_dy grad_output idxs z = foldl (+) z (values_at (grad grad_output) idxs)"

definition sum_dy_x_hat ::
  "'a::{zero,one,plus,minus,times,inverse} libm \<Rightarrow> 'a BatchNorm \<Rightarrow> 'a Tensor \<Rightarrow> nat list \<Rightarrow> 'a
     \<Rightarrow> 'a" where
  "sum_dy_x_hat M bn grad_output idxs z =
     foldl (+) z
       (map (\<lambda>idx. grad grad_output ! idx
                * x_hat M (eps bn) (values_at (input_data bn) idxs) (input_data bn ! idx)) idxs)"

text \<open>
  \<open>exact_on_constant M e v n\<close>: the facts of arithmetic under which a channel of \<open>n\<close>
  values, all equal to \<open>v\<close>, is normalised to 0 in a layer with stabiliser \<open>e\<close>. The mean
  of \<open>n\<close> copies of \<open>v\<close> is computed as \<open>v\<close>; \<open>v - v\<close>, \<open>0 * 0\<close>, \<open>0 + 0\<close> and \<open>0 / n\<close> are 0;
  and 0 times \<open>inv_std = 1 / sqrt(0 + e)\<close> is 0. All of them hold in exact arithmetic
  with \<open>e > 0\<close>. In binary32 the first one fails when the sum of the copies is rounded
  (or overflows), and the last one fails for \<open>e = 0\<close>, where \<open>inv_std\<close> is infinite.
\<close>

definition exact_on_constant ::
  "'a::{zero,one,plus,minus,times,inverse} libm \<Rightarrow> 'a \<Rightarrow> 'a \<Rightarrow> nat \<Rightarrow> bool" where
  "exact_on_constant M e v n \<longleftrightarrow>
     batch_mean M (replicate n v) = v
     \<and> v - v = 0 \<and> (0::'a) * 0 = 0 \<and> (0::'a) + 0 = 0 \<and> 0 / to_float M n = 0
     \<and> 0 * (1 / sqrtf M (0 + e)) = 0"

section \<open>A notion for the loop proofs\<close>

text \<open>
  \<open>pointwise B L S h\<close>: on a buffer of length \<open>L\<close> the loop body \<open>B\<close> keeps the length,
  replaces the value \<open>v\<close> at every position \<open>p\<close> of \<open>S\<close> by \<open>h p v\<close> and leaves every
  other position as it is.
\<close>

definition pointwise :: "('a list \<Rightarrow> 'a list) \<Rightarrow> nat \<Rightarrow> nat set \<Rightarrow> (nat \<Rightarrow> 'a \<Rightarrow> 'a) \<Rightarrow> bool" where
  "pointwise B L S h \<longleftrightarrow>
     (\<forall>d. length d = L \<longrightarrow>
        length (B d) = L \<and> (\<forall>p<L. B d ! p = (if p \<in> S then h p (d ! p) else d ! p)))"

text \<open>
  The channel loop of \<^verbatim>\<open>forward\<close> changes its three buffers independently of each
  other: \<open>running_step\<close> is what it does to a buffer of running statistics, given the
  batch statistic \<open>stat c\<close> of each channel, and \<open>normalized\<close> is the value it writes at
  position \<open>idx\<close> of the output.
\<close>

definition running_step ::
  "'a::{zero,one,plus,minus,times,inverse} BatchNorm \<Rightarrow> (nat \<Rightarrow> 'a) \<Rightarrow> nat \<Rightarrow> 'a list \<Rightarrow> 'a list" where
  "running_step bn stat c r =
     (if track_running_stats bn
      then (if first_update bn then r[c := stat c]
            else r[c := (1 - momentum bn) * r ! c + momentum bn * stat c])
      else r)"

definition normalized ::
  "'a::{zero,one,plus,minus,times,inverse} libm \<Rightarrow> 'a BatchNorm \<Rightarrow> 'a list \<Rightarrow> nat list \<Rightarrow> nat
     \<Rightarrow> nat \<Rightarrow> nat \<Rightarrow> 'a" where
  "normalized M bn x idxs count c idx =
     (let mean = channel_mean M x idxs count;
          var = channel_var M x idxs count mean;
          inv_std = 1 / sqrtf M (var + eps bn);
          x_hat = (x ! idx - mean) * inv_std
      in if affine bn then data (gamma bn) ! c * x_hat + data (beta bn) ! c else x_hat)"



section \<open>Properties\<close>

subsection \<open>Loops and sizes\<close>

lemmas tensor_defs = Tensor_new_def resize_def resize_grad_def Tensor_size_def validate_shape_def
  size_t_mul_def size_t_sub_def vector_resize_def float_vector_resize_def resize_throws_def
  float_vector_max_size_def

lemma length_vector_resize: "length (vector_resize dflt xs n) = n"
  by (simp add: vector_resize_def)

lemma resize_cases:
  "resize t =
     (case Tensor_size t of Inl e \<Rightarrow> Inl e
      | Inr n \<Rightarrow> if resize_throws (data t) n then Inl LengthError
                 else Inr (t\<lparr>data := vector_resize 0 (data t) n\<rparr>))"
  by (simp add: resize_def float_vector_resize_def split: sum.splits)

lemma resize_grad_cases:
  "resize_grad t =
     (case Tensor_size t of Inl e \<Rightarrow> Inl e
      | Inr n \<Rightarrow> if resize_throws (grad t) n then Inl LengthError
                 else Inr (t\<lparr>grad := vector_resize 0 (grad t) n\<rparr>))"
  by (simp add: resize_grad_def float_vector_resize_def split: sum.splits)

lemma resize_Inr:
  "resize t = Inr t' \<Longrightarrow>
     \<exists>n. Tensor_size t = Inr n \<and> \<not> resize_throws (data t) n
          \<and> t' = t\<lparr>data := vector_resize 0 (data t) n\<rparr>"
  by (auto simp: resize_cases split: sum.splits if_splits)

lemma resize_grad_Inr_size:
  "resize_grad t = Inr t' \<Longrightarrow>
     \<exists>n. Tensor_size t = Inr n \<and> \<not> resize_throws (grad t) n
          \<and> t' = t\<lparr>grad := vector_resize 0 (grad t) n\<rparr>"
  by (auto simp: resize_grad_cases split: sum.splits if_splits)

lemma resize_throws_max:
  "n \<le> float_vector_max_size \<or> n \<le> length xs \<Longrightarrow> \<not> resize_throws xs n"
  by (auto simp: resize_throws_def)

lemma for_loop_0: "for_loop 0 body s = s"
  by (simp add: for_loop_def)

lemma for_loop_Suc: "for_loop (Suc n) body s = body n (for_loop n body s)"
  by (simp add: for_loop_def)

lemma length_for_loop_set: "length (for_loop n (\<lambda>i ys. ys[i := f i]) xs) = length xs"
  by (induction n) (simp_all add: for_loop_0 for_loop_Suc)

lemma for_loop_set_nth:
  "n \<le> length xs \<Longrightarrow> i < n \<Longrightarrow> for_loop n (\<lambda>i ys. ys[i := f i]) xs ! i = f i"
proof (induction n)
  case 0
  then show ?case by simp
next
  case (Suc n)
  show ?case
  proof (cases "i = n")
    case True
    with Suc.prems show ?thesis by (simp add: for_loop_Suc length_for_loop_set)
  next
    case False
    with Suc show ?thesis by (simp add: for_loop_Suc)
  qed
qed

lemma resize_grad_Inr:
  "resize_grad t = Inr t' \<Longrightarrow> shape t' = shape t \<and> data t' = data t"
  by (auto simp: resize_grad_def split: sum.splits)


lemma ReLU_backward_nth:
  "ReLU_backward output input = Inr inp' \<Longrightarrow> i < length (data output) \<Longrightarrow>
     grad inp' ! i = (if 0 < data output ! i then grad output ! i else 0)"
  unfolding ReLU_backward_def
  by (cases "resize_grad input") (auto simp: for_loop_set_nth split: if_splits)


lemma Sigmoid_backward_nth:
  "Sigmoid_backward output input = Inr inp' \<Longrightarrow> i < length (data output) \<Longrightarrow>
     grad inp' ! i = grad output ! i * data output ! i * (1 - data output ! i)"
  unfolding Sigmoid_backward_def Let_def
  by (cases "resize_grad input") (auto simp: for_loop_set_nth split: if_splits)

lemma Tanh_backward_nth:
  "Tanh_backward output input = Inr inp' \<Longrightarrow> i < length (data output) \<Longrightarrow>
     grad inp' ! i = grad output ! i * (1 - data output ! i * data output ! i)"
  unfolding Tanh_backward_def Let_def
  by (cases "resize_grad input") (auto simp: for_loop_set_nth split: if_splits)

lemma size_t_sub_1:
  assumes "0 < n" and "n < 2 ^ 64"
  shows "size_t_sub n 1 = n - 1"
proof -
  have eq: "n + 2 ^ 64 - 1 = (n - 1) + 2 ^ 64"
    using assms by simp
  have "n - 1 < 2 ^ 64"
    using assms by arith
  then have "((n - 1) + 2 ^ 64) mod 2 ^ 64 = n - 1"
    by (simp only: mod_add_self2 mod_less)
  then show ?thesis
    unfolding size_t_sub_def eq .
qed

lemma size_t_sub_0_1: "size_t_sub 0 1 = SIZE_MAX"
  by (simp add: size_t_sub_def SIZE_MAX_def)

subsection \<open>Activations\<close>

lemma ReLU_backward_returns:
  "(\<exists>inp'. ReLU_backward output (input :: 'a::{zero,ord} Tensor) = Inr inp') \<longleftrightarrow>
     (\<exists>n. Tensor_size input = Inr n \<and> \<not> resize_throws (grad input) n
          \<and> length (data output) \<le> n
          \<and> (\<forall>i<length (data output). 0 < data output ! i \<longrightarrow> i < length (grad output)))"
  by (auto simp: ReLU_backward_def resize_grad_cases length_vector_resize list_all_iff
        split: sum.splits if_splits)

lemma Sigmoid_backward_returns:
  "(\<exists>inp'. Sigmoid_backward output (input :: 'a::{zero,one,minus,times} Tensor) = Inr inp') \<longleftrightarrow>
     (\<exists>n. Tensor_size input = Inr n \<and> \<not> resize_throws (grad input) n
          \<and> length (data output) \<le> n \<and> length (data output) \<le> length (grad output))"
  by (auto simp: Sigmoid_backward_def resize_grad_cases length_vector_resize
        split: sum.splits if_splits)

lemma Tanh_backward_returns:
  "(\<exists>inp'. Tanh_backward output (input :: 'a::{zero,one,minus,times} Tensor) = Inr inp') \<longleftrightarrow>
     (\<exists>n. Tensor_size input = Inr n \<and> \<not> resize_throws (grad input) n
          \<and> length (data output) \<le> n \<and> length (data output) \<le> length (grad output))"
  by (auto simp: Tanh_backward_def resize_grad_cases length_vector_resize
        split: sum.splits if_splits)

text \<open>
  Claim C5. The backward pass of every activation layer computes the gradient of its
  input from the forward output held in \<open>output.data\<close>, element by element: ReLU
  writes \<open>output.grad[i]\<close> if \<open>output.data[i] > 0\<close> and 0 otherwise, Sigmoid writes
  \<open>output.grad[i] * s * (1 - s)\<close> with \<open>s = output.data[i]\<close>, and Tanh writes
  \<open>output.grad[i] * (1 - t * t)\<close> with \<open>t = output.data[i]\<close>. The data of the input
  tensor does not occur. The call returns exactly when the shape of \<open>input\<close> is valid,
  \<^verbatim>\<open>input.resize_grad()\<close> does not throw, \<open>input.grad\<close> has room for every element of
  \<open>output.data\<close>, and \<open>output.grad\<close> holds every element that is read: for Sigmoid and
  Tanh all of them, for ReLU those at the positions where \<open>output.data[i] > 0\<close>.
\<close>

theorem activation_backward_from_output:
  "(ReLU_backward output (input :: 'a::{zero,one,minus,times,ord} Tensor) = Inr inp' \<longrightarrow>
            (\<forall>i<length (data output).
               grad inp' ! i = (if 0 < data output ! i then grad output ! i else 0)))
       \<and> (Sigmoid_backward output input = Inr inp' \<longrightarrow>
            (\<forall>i<length (data output).
               grad inp' ! i = grad output ! i * data output ! i * (1 - data output ! i)))
       \<and> (Tanh_backward output input = Inr inp' \<longrightarrow>
            (\<forall>i<length (data output).
               grad inp' ! i = grad output ! i * (1 - data output ! i * data output ! i)))
       \<and> ((\<exists>r. ReLU_backward output input = Inr r) \<longleftrightarrow>
            (\<exists>n. Tensor_size input = Inr n \<and> \<not> resize_throws (grad input) n
                 \<and> length (data output) \<le> n
                 \<and> (\<forall>i<length (data output).
                       0 < data output ! i \<longrightarrow> i < length (grad output))))
       \<and> ((\<exists>r. Sigmoid_backward output input = Inr r) \<longleftrightarrow>
            (\<exists>n. Tensor_size input = Inr n \<and> \<not> resize_throws (grad input) n
                 \<and> length (data output) \<le> n \<and> length (data output) \<le> length (grad output)))
       \<and> ((\<exists>r. Tanh_backward output input = Inr r) \<longleftrightarrow>
            (\<exists>n. Tensor_size input = Inr n \<and> \<not> resize_throws (grad input) n
                 \<and> length (data output) \<le> n \<and> length (data output) \<le> length (grad output)))"
  using ReLU_backward_nth [of "output" "input" inp'] Sigmoid_backward_nth [of "output" "input" inp']
    Tanh_backward_nth [of "output" "input" inp']
    ReLU_backward_returns [of "output" "input"] Sigmoid_backward_returns [of "output" "input"]
    Tanh_backward_returns [of "output" "input"]
  by (intro conjI impI allI) (assumption | blast)+


theorem activation_backward_from_output_witness:
  "ReLU_backward \<lparr>shape = [2], data = [3, - 1], grad = [5]\<rparr>
      \<lparr>shape = [2], data = [9, 9], grad = []\<rparr>
     = Inr \<lparr>shape = [2], data = [9, 9], grad = [5, 0 :: real]\<rparr>
   \<and> Sigmoid_backward \<lparr>shape = [2], data = [1 / 2, 1], grad = [4, 7]\<rparr>
      \<lparr>shape = [2], data = [9, 9], grad = []\<rparr>
     = Inr \<lparr>shape = [2], data = [9, 9], grad = [1, 0 :: real]\<rparr>
   \<and> Tanh_backward \<lparr>shape = [2], data = [1 / 2, 1], grad = [4, 7]\<rparr>
      \<lparr>shape = [2], data = [9, 9], grad = []\<rparr>
     = Inr \<lparr>shape = [2], data = [9, 9], grad = [3, 0 :: real]\<rparr>
   \<and> [5, 0 :: real] ! 0 = [5] ! 0
   \<and> [5, 0 :: real] ! 1 = 0
   \<and> [1, 0 :: real] ! 0 = [4, 7] ! 0 * [1 / 2, 1] ! 0 * (1 - [1 / 2, 1] ! 0)
   \<and> [3, 0 :: real] ! 0 = [4, 7] ! 0 * (1 - [1 / 2, 1] ! 0 * [1 / 2, 1] ! 0)
   \<and> (\<exists>r. ReLU_backward \<lparr>shape = [2], data = [- 1, 0 :: real], grad = []\<rparr>
             \<lparr>shape = [2], data = [9, 9], grad = []\<rparr> = Inr r)"
proof -
  let ?x = "\<lparr>shape = [2], data = [9, 9 :: real], grad = []\<rparr>"
  have r: "ReLU_backward \<lparr>shape = [2], data = [3, - 1], grad = [5]\<rparr> ?x
     = Inr \<lparr>shape = [2], data = [9, 9], grad = [5, 0 :: real]\<rparr>"
    by (simp add: ReLU_backward_def tensor_defs for_loop_def upt_conv_Cons)
       (simp add: numeral_2_eq_2)
  have s: "Sigmoid_backward \<lparr>shape = [2], data = [1 / 2, 1], grad = [4, 7]\<rparr> ?x
     = Inr \<lparr>shape = [2], data = [9, 9], grad = [1, 0 :: real]\<rparr>"
    by (simp add: Sigmoid_backward_def tensor_defs for_loop_def upt_conv_Cons)
       (simp add: numeral_2_eq_2)
  have t: "Tanh_backward \<lparr>shape = [2], data = [1 / 2, 1], grad = [4, 7]\<rparr> ?x
     = Inr \<lparr>shape = [2], data = [9, 9], grad = [3, 0 :: real]\<rparr>"
    by (simp add: Tanh_backward_def tensor_defs for_loop_def upt_conv_Cons)
       (simp add: numeral_2_eq_2)
  note relu = activation_backward_from_output
      [of "\<lparr>shape = [2], data = [3, - 1], grad = [5 :: real]\<rparr>" ?x
          "\<lparr>shape = [2], data = [9, 9], grad = [5, 0 :: real]\<rparr>"]
  note sigmoid = activation_backward_from_output
      [of "\<lparr>shape = [2], data = [1 / 2, 1], grad = [4, 7 :: real]\<rparr>" ?x
          "\<lparr>shape = [2], data = [9, 9], grad = [1, 0 :: real]\<rparr>"]
  note tanh = activation_backward_from_output
      [of "\<lparr>shape = [2], data = [1 / 2, 1], grad = [4, 7 :: real]\<rparr>" ?x
          "\<lparr>shape = [2], data = [9, 9], grad = [3, 0 :: real]\<rparr>"]
  note lazy = activation_backward_from_output
      [of "\<lparr>shape = [2], data = [- 1, 0 :: real], grad = []\<rparr>" ?x ?x]
  from r relu have r0: "[5, 0 :: real] ! 0 = [5] ! 0" and r1: "[5, 0 :: real] ! 1 = 0"
    by simp_all
  from s sigmoid
  have s0: "[1, 0 :: real] ! 0 = [4, 7] ! 0 * [1 / 2, 1] ! 0 * (1 - [1 / 2, 1] ! 0)"
    by simp
  from t tanh
  have t0: "[3, 0 :: real] ! 0 = [4, 7] ! 0 * (1 - [1 / 2, 1] ! 0 * [1 / 2, 1] ! 0)"
    by simp
  have sz: "Tensor_size ?x = Inr 2"
    by (simp add: Tensor_size_def validate_shape_def size_t_mul_def)
  have nt: "\<not> resize_throws (grad ?x) 2"
    by (simp add: resize_throws_def float_vector_max_size_def)
  have len: "length (data \<lparr>shape = [2], data = [- 1, 0 :: real], grad = []\<rparr>) \<le> 2"
    by simp
  have pos: "\<forall>i<length (data \<lparr>shape = [2], data = [- 1, 0 :: real], grad = []\<rparr>).
                 0 < data \<lparr>shape = [2], data = [- 1, 0 :: real], grad = []\<rparr> ! i \<longrightarrow>
                 i < length (grad \<lparr>shape = [2], data = [- 1, 0 :: real], grad = []\<rparr>)"
    by (simp add: less_Suc_eq numeral_2_eq_2)
  from sz nt len pos
  have "\<exists>n. Tensor_size ?x = Inr n \<and> \<not> resize_throws (grad ?x) n
           \<and> length (data \<lparr>shape = [2], data = [- 1, 0 :: real], grad = []\<rparr>) \<le> n
           \<and> (\<forall>i<length (data \<lparr>shape = [2], data = [- 1, 0 :: real], grad = []\<rparr>).
                 0 < data \<lparr>shape = [2], data = [- 1, 0 :: real], grad = []\<rparr> ! i \<longrightarrow>
                 i < length (grad \<lparr>shape = [2], data = [- 1, 0 :: real], grad = []\<rparr>))"
    by blast
  with lazy have l: "\<exists>r. ReLU_backward \<lparr>shape = [2], data = [- 1, 0 :: real], grad = []\<rparr> ?x = Inr r"
    by blast
  from r s t r0 r1 s0 t0 l show ?thesis
    by (intro conjI)
qed


subsection \<open>Model::backward before Model::forward\<close>

text \<open>
  Claim C4, as amended. A model whose activation cache is empty, as it is before any
  \<^verbatim>\<open>forward\<close>, refuses \<^verbatim>\<open>backward\<close> with \<open>IllegalState\<close> when the number of its layers is
  not 1. The guard compares the size of the cache with \<^verbatim>\<open>layers.size() - 1\<close>, which is
  0 for one layer: the empty cache of a one-layer model passes the guard.
\<close>

theorem Model_backward_before_forward:
  assumes "activations m = []" and "length (layers m) \<noteq> 1" and "length (layers m) < 2 ^ 64"
  shows "Model_backward M m output input = Inl IllegalState"
proof (cases "length (layers m) = 0")
  case True
  with assms(1) show ?thesis
    by (simp add: Model_backward_def size_t_sub_def)
next
  case False
  with assms have "size_t_sub (length (layers m)) 1 = length (layers m) - 1"
    by (intro size_t_sub_1) simp_all
  moreover from False assms(2) have "length (layers m) - 1 \<noteq> 0"
    by arith
  ultimately show ?thesis
    using assms(1) by (simp add: Model_backward_def)
qed

theorem Model_backward_before_forward_witness:
  "Model_backward real_libm (add_layer (add_layer Model_new ReLU) Tanh)
      \<lparr>shape = [1], data = [1], grad = [1]\<rparr> \<lparr>shape = [1], data = [1], grad = []\<rparr>
     = Inl IllegalState"
  using Model_backward_before_forward
    [of "add_layer (add_layer Model_new ReLU) Tanh" real_libm
        "\<lparr>shape = [1], data = [1], grad = [1]\<rparr>" "\<lparr>shape = [1], data = [1], grad = []\<rparr>"]
  by (simp add: add_layer_def Model_new_def)

theorem Model_backward_single_layer_counterexample:
  "activations (add_layer Model_new ReLU :: real Model) = []
   \<and> Model_backward real_libm (add_layer Model_new ReLU)
        \<lparr>shape = [1], data = [1], grad = [1]\<rparr> \<lparr>shape = [1], data = [1], grad = []\<rparr>
      = Inr (\<lparr>layers = [ReLU], activations = []\<rparr>, \<lparr>shape = [1], data = [1], grad = [1]\<rparr>)"
  by (simp add: Model_backward_def add_layer_def Model_new_def same_layer_def ReLU_backward_def
        tensor_defs for_loop_def)

subsection \<open>BatchNorm backward without an upstream gradient\<close>

text \<open>
  Claim C10. In each of the three BatchNorm classes \<^verbatim>\<open>backward\<close> fails when the \<open>grad\<close>
  buffer of the upstream tensor is empty. It does so after a \<^verbatim>\<open>forward\<close> call has cached
  its input and for an upstream tensor of the right rank and channel count, and the
  failure is then the \<^verbatim>\<open>std::runtime_error\<close> of the check of that buffer.
\<close>

theorem BatchNorm_backward_empty_grad:
  assumes "grad grad_output = []"
  shows "(\<exists>e. BatchNorm1d_backward M bn grad_output grad_input = Inl e)
       \<and> (\<exists>e. BatchNorm2d_backward M bn grad_output grad_input = Inl e)
       \<and> (\<exists>e. BatchNorm3d_backward M bn grad_output grad_input = Inl e)
       \<and> (input_data bn \<noteq> [] \<and> shape grad_output ! 1 = num_features bn \<longrightarrow>
            (length (shape grad_output) = 2 \<longrightarrow>
               BatchNorm1d_backward M bn grad_output grad_input = Inl IllegalState)
          \<and> (length (shape grad_output) = 4 \<longrightarrow>
               BatchNorm2d_backward M bn grad_output grad_input = Inl IllegalState)
          \<and> (length (shape grad_output) = 5 \<longrightarrow>
               BatchNorm3d_backward M bn grad_output grad_input = Inl IllegalState))"
  using assms
  by (simp add: BatchNorm1d_backward_def BatchNorm2d_backward_def BatchNorm3d_backward_def)


theorem BatchNorm_backward_empty_grad_witness:
  "BatchNorm1d_backward real_libm
      \<lparr>num_features = 1, eps = 1, momentum = 1, affine = False, track_running_stats = False,
       gamma = Tensor_new, beta = Tensor_new, running_mean = Tensor_new,
       running_var = Tensor_new, input_data = [1, 2], first_update = False\<rparr>
      \<lparr>shape = [2, 1], data = [3, 4], grad = []\<rparr> Tensor_new = Inl IllegalState
   \<and> BatchNorm2d_backward real_libm
      \<lparr>num_features = 1, eps = 1, momentum = 1, affine = False, track_running_stats = False,
       gamma = Tensor_new, beta = Tensor_new, running_mean = Tensor_new,
       running_var = Tensor_new, input_data = [1, 2], first_update = False\<rparr>
      \<lparr>shape = [2, 1, 1, 1], data = [3, 4], grad = []\<rparr> Tensor_new = Inl IllegalState
   \<and> BatchNorm3d_backward real_libm
      \<lparr>num_features = 1, eps = 1, momentum = 1, affine = False, track_running_stats = False,
       gamma = Tensor_new, beta = Tensor_new, running_mean = Tensor_new,
       running_var = Tensor_new, input_data = [1, 2], first_update = False\<rparr>
      \<lparr>shape = [2, 1, 1, 1, 1], data = [3, 4], grad = []\<rparr> Tensor_new = Inl IllegalState"
  using
    BatchNorm_backward_empty_grad
      [of "\<lparr>shape = [2, 1], data = [3, 4], grad = []\<rparr>" real_libm
          "\<lparr>num_features = 1, eps = 1, momentum = 1, affine = False,
            track_running_stats = False, gamma = Tensor_new, beta = Tensor_new,
            running_mean = Tensor_new, running_var = Tensor_new, input_data = [1, 2],
            first_update = False\<rparr>" Tensor_new]
    BatchNorm_backward_empty_grad
      [of "\<lparr>shape = [2, 1, 1, 1], data = [3, 4], grad = []\<rparr>" real_libm
          "\<lparr>num_features = 1, eps = 1, momentum = 1, affine = False,
            track_running_stats = False, gamma = Tensor_new, beta = Tensor_new,
            running_mean = Tensor_new, running_var = Tensor_new, input_data = [1, 2],
            first_update = False\<rparr>" Tensor_new]
    BatchNorm_backward_empty_grad
      [of "\<lparr>shape = [2, 1, 1, 1, 1], data = [3, 4], grad = []\<rparr>" real_libm
          "\<lparr>num_features = 1, eps = 1, momentum = 1, affine = False,
            track_running_stats = False, gamma = Tensor_new, beta = Tensor_new,
            running_mean = Tensor_new, running_var = Tensor_new, input_data = [1, 2],
            first_update = False\<rparr>" Tensor_new]
  by simp

subsection \<open>mse_loss\<close>

lemma for_loop_accumulate:
  "for_loop n (\<lambda>i s. g s (f i)) z = foldl g z (map f [0..<n])"
  by (induction n) (simp_all add: for_loop_0 for_loop_Suc)

lemma map_nth_zip:
  "length xs = length ys \<Longrightarrow> map (\<lambda>i. h (xs ! i) (ys ! i)) [0..<length xs] = map2 h xs ys"
  by (rule nth_equalityI) simp_all

lemma resize_scalar:
  "resize (Tensor_new\<lparr>shape := [Suc 0]\<rparr>) = Inr \<lparr>shape = [Suc 0], data = [0::'a::zero], grad = []\<rparr>"
  by (simp add: tensor_defs)

lemma mse_loss_value:
  assumes "length (data pred) = length (data target)"
  shows "mse_loss M pred target =
           Inr \<lparr>shape = [1],
                data = [foldl (+) 0 (map2 (\<lambda>p t. (p - t) * (p - t)) (data pred) (data target))
                          / to_float M (length (data pred))],
                grad = []\<rparr>"
proof -
  have "for_loop (length (data pred))
          (\<lambda>i s. let diff = data pred ! i - data target ! i in s + diff * diff) 0
        = foldl (+) 0 (map2 (\<lambda>p t. (p - t) * (p - t)) (data pred) (data target))"
    using for_loop_accumulate
      [of "length (data pred)" "(+)"
          "\<lambda>i. (data pred ! i - data target ! i) * (data pred ! i - data target ! i)" 0]
      map_nth_zip [OF assms, of "\<lambda>p t. (p - t) * (p - t)"]
    by (simp add: Let_def)
  with assms show ?thesis
    by (simp add: mse_loss_def resize_scalar)
qed

lemma foldl_add_zeros:
  assumes "(0::'a::{zero,plus}) + 0 = 0" and "\<forall>x\<in>set xs. x = 0"
  shows "foldl (+) 0 xs = (0::'a)"
  using assms(2) by (induction xs rule: rev_induct) (simp_all add: assms(1))

text \<open>
  Claim C7, as amended. \<^verbatim>\<open>mse_loss\<close> fails with \<open>SizeMismatch\<close> exactly when the two data
  buffers differ in length. Otherwise it returns a tensor of shape \<open>[1]\<close> whose single
  element is the sum of the squared elementwise differences, accumulated from 0 in
  index order, divided by the number of elements. On two identical tensors with at
  least one element this value is exactly 0, provided every element \<open>x\<close> is finite
  (\<open>x - x = 0\<close>); the facts \<open>0 * 0 = 0\<close>, \<open>0 + 0 = 0\<close> and \<open>0 / n = 0\<close> for the element
  count \<open>n\<close> are the arithmetic used.
\<close>

theorem mse_loss_contract:
  "(mse_loss M pred target = Inl SizeMismatch \<longleftrightarrow> length (data pred) \<noteq> length (data target))
   \<and> (length (data pred) = length (data target) \<longrightarrow>
        mse_loss M pred target =
          Inr \<lparr>shape = [1],
               data = [foldl (+) 0 (map2 (\<lambda>p t. (p - t) * (p - t)) (data pred) (data target))
                         / to_float M (length (data pred))],
               grad = []\<rparr>)
   \<and> (data t \<noteq> [] \<and> (\<forall>x\<in>set (data t). x - x = 0) \<and> (0::'a) * 0 = 0 \<and> (0::'a) + 0 = 0
        \<and> 0 / to_float M (length (data t)) = 0 \<longrightarrow>
        mse_loss M t t = Inr \<lparr>shape = [1], data = [0::'a::{zero,plus,minus,times,inverse}], grad = []\<rparr>)"
proof (intro conjI impI)
  show "mse_loss M pred target = Inl SizeMismatch \<longleftrightarrow> length (data pred) \<noteq> length (data target)"
    by (cases "length (data pred) = length (data target)")
       (simp_all add: mse_loss_value, simp add: mse_loss_def)
next
  assume "length (data pred) = length (data target)"
  then show "mse_loss M pred target =
          Inr \<lparr>shape = [1],
               data = [foldl (+) 0 (map2 (\<lambda>p t. (p - t) * (p - t)) (data pred) (data target))
                         / to_float M (length (data pred))],
               grad = []\<rparr>"
    by (rule mse_loss_value)
next
  assume a: "data t \<noteq> [] \<and> (\<forall>x\<in>set (data t). x - x = 0) \<and> (0::'a) * 0 = 0 \<and> (0::'a) + 0 = 0
        \<and> 0 / to_float M (length (data t)) = 0"
  have "\<forall>y\<in>set (map2 (\<lambda>p t. (p - t) * (p - t)) (data t) (data t)). y = 0"
    using a by (auto simp: zip_same)
  with a have "foldl (+) 0 (map2 (\<lambda>p t. (p - t) * (p - t)) (data t) (data t)) = 0"
    by (intro foldl_add_zeros) simp_all
  with a show "mse_loss M t t = Inr \<lparr>shape = [1], data = [0], grad = []\<rparr>"
    by (simp add: mse_loss_value)
qed

theorem mse_loss_contract_witness:
  "mse_loss real_libm \<lparr>shape = [2], data = [1, 2], grad = []\<rparr>
      \<lparr>shape = [3], data = [1, 2, 3], grad = []\<rparr> = Inl SizeMismatch
   \<and> mse_loss real_libm \<lparr>shape = [2], data = [1, 5], grad = []\<rparr>
      \<lparr>shape = [2], data = [3, 1], grad = []\<rparr> = Inr \<lparr>shape = [1], data = [10], grad = []\<rparr>
   \<and> mse_loss real_libm \<lparr>shape = [2], data = [1, 5], grad = []\<rparr>
      \<lparr>shape = [2], data = [1, 5], grad = []\<rparr> = Inr \<lparr>shape = [1], data = [0], grad = []\<rparr>"
  using
    mse_loss_contract [of real_libm "\<lparr>shape = [2], data = [1, 2], grad = []\<rparr>"
      "\<lparr>shape = [3], data = [1, 2, 3], grad = []\<rparr>" "\<lparr>shape = [2], data = [1, 5], grad = []\<rparr>"]
    mse_loss_contract [of real_libm "\<lparr>shape = [2], data = [1, 5], grad = []\<rparr>"
      "\<lparr>shape = [2], data = [3, 1], grad = []\<rparr>" "\<lparr>shape = [2], data = [1, 5], grad = []\<rparr>"]
  by (simp add: real_libm_def)

theorem mse_loss_empty_counterexample:
  "mse_loss xfloat_libm Tensor_new Tensor_new = Inr \<lparr>shape = [1], data = [NaN], grad = []\<rparr>
   \<and> NaN \<noteq> (0 :: xfloat)"
  by (simp add: mse_loss_def tensor_defs for_loop_def xfloat_libm_def divide_xfloat_def
        zero_xfloat_def)


subsection \<open>Loops that update a buffer position by position\<close>

lemma pointwiseI:
  assumes "\<And>d. length d = L \<Longrightarrow> length (B d) = L"
    and "\<And>d p. length d = L \<Longrightarrow> p < L \<Longrightarrow> p \<in> S \<Longrightarrow> B d ! p = h p (d ! p)"
    and "\<And>d p. length d = L \<Longrightarrow> p < L \<Longrightarrow> p \<notin> S \<Longrightarrow> B d ! p = d ! p"
  shows "pointwise B L S h"
  using assms by (simp add: pointwise_def)

lemma pointwise_length: "pointwise B L S h \<Longrightarrow> length d = L \<Longrightarrow> length (B d) = L"
  by (simp add: pointwise_def)

lemma pointwise_nth:
  "pointwise B L S h \<Longrightarrow> length d = L \<Longrightarrow> p < L \<Longrightarrow>
     B d ! p = (if p \<in> S then h p (d ! p) else d ! p)"
  by (simp add: pointwise_def)

lemma pointwise_update: "pointwise (\<lambda>d. d[q := f (d ! q)]) L {q} (\<lambda>p. f)"
  by (rule pointwiseI) simp_all

lemma pointwise_id: "pointwise (\<lambda>d. d) L {} h"
  by (rule pointwiseI) simp_all

lemma pointwise_comp:
  assumes "pointwise B1 L S1 h1" and "pointwise B2 L S2 h2"
  shows "pointwise (B2 \<circ> B1) L UNIV
           (\<lambda>p v. (if p \<in> S2 then h2 p else id) ((if p \<in> S1 then h1 p else id) v))"
proof (rule pointwiseI)
  fix d :: "'a list"
  assume len: "length d = L"
  with assms(1) have len1: "length (B1 d) = L"
    by (rule pointwise_length)
  with assms(2) show "length ((B2 \<circ> B1) d) = L"
    by (simp add: pointwise_length)
  fix p
  assume p: "p < L"
  from pointwise_nth [OF assms(2) len1 p] pointwise_nth [OF assms(1) len p]
  show "(B2 \<circ> B1) d ! p = (if p \<in> S2 then h2 p else id) ((if p \<in> S1 then h1 p else id) (d ! p))"
    by simp
qed simp

lemma pointwise_weaken:
  assumes "pointwise B L S h"
    and "\<And>p v. p < L \<Longrightarrow> (if p \<in> S then h p v else v) = (if p \<in> S' then h' p v else v)"
  shows "pointwise B L S' h'"
proof (rule pointwiseI)
  fix d :: "'a list"
  assume len: "length d = L"
  with assms(1) show "length (B d) = L"
    by (rule pointwise_length)
  fix p
  assume p: "p < L"
  from pointwise_nth [OF assms(1) len p] assms(2) [OF p, of "d ! p"]
  have eq: "B d ! p = (if p \<in> S' then h' p (d ! p) else d ! p)"
    by simp
  { assume "p \<in> S'" with eq show "B d ! p = h' p (d ! p)" by simp }
  { assume "p \<notin> S'" with eq show "B d ! p = d ! p" by simp }
qed

lemma pointwise_fold:
  assumes "\<And>x. x \<in> set xs \<Longrightarrow> pointwise (B x) L (S x) (h x)"
  shows "pointwise (fold B xs) L UNIV
           (\<lambda>p v. fold (\<lambda>x v. if p \<in> S x then h x p v else v) xs v)"
  using assms
proof (induction xs)
  case Nil
  show ?case by (rule pointwiseI) simp_all
next
  case (Cons x xs)
  have "pointwise (B x) L (S x) (h x)"
    by (rule Cons.prems) simp
  moreover have "pointwise (fold B xs) L UNIV
           (\<lambda>p v. fold (\<lambda>x v. if p \<in> S x then h x p v else v) xs v)"
    by (rule Cons.IH) (simp add: Cons.prems)
  ultimately have "pointwise (fold B xs \<circ> B x) L UNIV
     (\<lambda>p v. (if p \<in> UNIV then (\<lambda>v. fold (\<lambda>x v. if p \<in> S x then h x p v else v) xs v) else id)
               ((if p \<in> S x then h x p else id) v))"
    by (rule pointwise_comp)
  then have "pointwise (fold B (x # xs)) L UNIV
     (\<lambda>p v. (if p \<in> UNIV then (\<lambda>v. fold (\<lambda>x v. if p \<in> S x then h x p v else v) xs v) else id)
               ((if p \<in> S x then h x p else id) v))"
    by simp
  then show ?case
    by (rule pointwise_weaken) simp
qed

text \<open>Positions written once, positions never written, and a position written every time.\<close>

lemma fold_cond_not_mem:
  "(\<And>x. x \<in> set xs \<Longrightarrow> p \<notin> S x) \<Longrightarrow> fold (\<lambda>x v. if p \<in> S x then h x p v else v) xs v = v"
  by (induction xs arbitrary: v) simp_all

lemma fold_cond_all_mem:
  "(\<And>x. x \<in> set xs \<Longrightarrow> p \<in> S x) \<Longrightarrow>
     fold (\<lambda>x v. if p \<in> S x then h x p v else v) xs v = fold (\<lambda>x. h x p) xs v"
  by (induction xs arbitrary: v) simp_all

lemma fold_cond_once:
  assumes "distinct xs" and "x \<in> set xs" and "p \<in> S x"
    and "\<And>y. y \<in> set xs \<Longrightarrow> y \<noteq> x \<Longrightarrow> p \<notin> S y"
  shows "fold (\<lambda>x v. if p \<in> S x then h x p v else v) xs v = h x p v"
  using assms
proof (induction xs arbitrary: v)
  case Nil
  then show ?case by simp
next
  case (Cons y ys)
  show ?case
  proof (cases "y = x")
    case True
    with Cons.prems have "\<And>z. z \<in> set ys \<Longrightarrow> p \<notin> S z"
      by auto
    then have "fold (\<lambda>x v. if p \<in> S x then h x p v else v) ys (h x p v) = h x p v"
      by (rule fold_cond_not_mem)
    with True Cons.prems(3) show ?thesis by simp
  next
    case False
    with Cons.prems have "p \<notin> S y" and "x \<in> set ys" and "distinct ys"
      by auto
    moreover from Cons.prems have "\<And>z. z \<in> set ys \<Longrightarrow> z \<noteq> x \<Longrightarrow> p \<notin> S z"
      by auto
    ultimately show ?thesis
      using Cons.IH [of v] Cons.prems(3) by simp
  qed
qed

lemma pointwise_for_loop:
  assumes "\<And>i. i < n \<Longrightarrow> pointwise (B i) L (S i) (h i)"
  shows "pointwise (for_loop n B) L UNIV
           (\<lambda>p v. fold (\<lambda>i v. if p \<in> S i then h i p v else v) [0..<n] v)"
proof -
  have "pointwise (fold B [0..<n]) L UNIV
           (\<lambda>p v. fold (\<lambda>i v. if p \<in> S i then h i p v else v) [0..<n] v)"
    by (rule pointwise_fold) (simp add: assms)
  moreover have "for_loop n B = fold B [0..<n]"
    by (rule ext) (simp add: for_loop_def)
  ultimately show ?thesis by simp
qed

text \<open>The innermost loop of a dot product: one position accumulates \<open>n\<close> terms.\<close>

lemma pointwise_accumulate:
  "pointwise (for_loop n (\<lambda>k d. d[q := d ! q + t k])) L {q}
     (\<lambda>p v. foldl (+) v (map t [0..<n]))"
proof -
  have "pointwise (for_loop n (\<lambda>k d. d[q := d ! q + t k])) L UNIV
          (\<lambda>p v. fold (\<lambda>k v. if p \<in> {q} then v + t k else v) [0..<n] v)"
    by (rule pointwise_for_loop) (rule pointwise_update)
  then show ?thesis
  proof (rule pointwise_weaken)
    fix p and v :: 'a
    have "fold (\<lambda>k v. v + t k) [0..<n] v = foldl (+) v (map t [0..<n])"
      by (simp add: foldl_conv_fold fold_map comp_def)
    moreover have "p \<noteq> q \<Longrightarrow> fold (\<lambda>k v. if p \<in> {q} then v + t k else v) [0..<n] v = v"
      by (rule fold_cond_not_mem) simp
    moreover have "p = q \<Longrightarrow> fold (\<lambda>k v. if p \<in> {q} then v + t k else v) [0..<n] v
                      = fold (\<lambda>k v. v + t k) [0..<n] v"
      by (rule fold_cond_all_mem) simp
    ultimately show "(if p \<in> UNIV then fold (\<lambda>k v. if p \<in> {q} then v + t k else v) [0..<n] v else v)
           = (if p \<in> {q} then foldl (+) v (map t [0..<n]) else v)"
      by simp
  qed
qed


subsection \<open>Linear::forward\<close>

lemma block_index_unique:
  assumes "j0 < (n::nat)" and "i * n \<le> i0 * n + j0" and "i0 * n + j0 < i * n + n"
  shows "i = i0"
proof -
  have "(i0 * n + j0) div n = i"
    using assms(2,3) by (intro div_nat_eqI) (simp_all add: mult.commute)
  moreover have "(i0 * n + j0) div n = i0"
    using assms(1) by simp
  ultimately show ?thesis by simp
qed

lemma Linear_forward_cell:
  "pointwise (\<lambda>out1. for_loop ni (\<lambda>k out2. out2[q := out2 ! q + t k]) (out1[q := c])) L {q}
     (\<lambda>p v. foldl (+) c (map t [0..<ni]))"
proof -
  have "pointwise (\<lambda>d. d[q := (\<lambda>_. c) (d ! q)]) L {q} (\<lambda>p _. c)"
    by (rule pointwise_update)
  then have "pointwise (for_loop ni (\<lambda>k out2. out2[q := out2 ! q + t k]) \<circ> (\<lambda>d. d[q := c])) L UNIV
     (\<lambda>p v. (if p \<in> {q} then (\<lambda>v. foldl (+) v (map t [0..<ni])) else id)
              ((if p \<in> {q} then (\<lambda>_. c) else id) v))"
    using pointwise_accumulate by (rule pointwise_comp)
  then have "pointwise (\<lambda>out1. for_loop ni (\<lambda>k out2. out2[q := out2 ! q + t k]) (out1[q := c])) L UNIV
     (\<lambda>p v. (if p \<in> {q} then (\<lambda>v. foldl (+) v (map t [0..<ni])) else id)
              ((if p \<in> {q} then (\<lambda>_. c) else id) v))"
    by (simp add: comp_def)
  then show ?thesis
    by (rule pointwise_weaken) simp
qed

lemma pointwise_row:
  assumes "\<And>j. j < n \<Longrightarrow> pointwise (B j) L {base + j} (\<lambda>p. g j)"
  shows "pointwise (for_loop n B) L {base..<base + n} (\<lambda>p. g (p - base))"
proof -
  have "pointwise (for_loop n B) L UNIV
     (\<lambda>p v. fold (\<lambda>j v. if p \<in> {base + j} then g j v else v) [0..<n] v)"
    by (rule pointwise_for_loop) (rule assms)
  then show ?thesis
  proof (rule pointwise_weaken)
    fix p and v :: 'a
    show "(if p \<in> UNIV then fold (\<lambda>j v. if p \<in> {base + j} then g j v else v) [0..<n] v else v)
        = (if p \<in> {base..<base + n} then g (p - base) v else v)"
    proof (cases "p \<in> {base..<base + n}")
      case True
      have "fold (\<lambda>j v. if p \<in> {base + j} then g j v else v) [0..<n] v = g (p - base) v"
      proof (rule fold_cond_once [where x = "p - base" and S = "\<lambda>j. {base + j}"
                 and h = "\<lambda>j p. g j"])
        show "distinct [0..<n]" by simp
        show "p - base \<in> set [0..<n]" using True by auto
        show "p \<in> {base + (p - base)}" using True by auto
        show "p \<notin> {base + y}" if "y \<in> set [0..<n]" and "y \<noteq> p - base" for y
          using that by auto
      qed
      with True show ?thesis by simp
    next
      case False
      have "fold (\<lambda>j v. if p \<in> {base + j} then g j v else v) [0..<n] v = v"
      proof (rule fold_cond_not_mem [where S = "\<lambda>j. {base + j}" and h = "\<lambda>j p. g j"])
        show "p \<notin> {base + y}" if "y \<in> set [0..<n]" for y
          using that False by auto
      qed
      with False show ?thesis by auto
    qed
  qed
qed

lemma pointwise_matrix:
  assumes "\<And>i. i < rows \<Longrightarrow>
             pointwise (B i) L {i * cols..<i * cols + cols} (\<lambda>p. g i (p - i * cols))"
  shows "pointwise (for_loop rows B) L {0..<rows * cols} (\<lambda>p. g (p div cols) (p mod cols))"
proof -
  have "pointwise (for_loop rows B) L UNIV
     (\<lambda>p v. fold (\<lambda>i v. if p \<in> {i * cols..<i * cols + cols} then g i (p - i * cols) v else v)
               [0..<rows] v)"
    by (rule pointwise_for_loop) (rule assms)
  then show ?thesis
  proof (rule pointwise_weaken)
    fix p and v :: 'a
    let ?h = "\<lambda>i (p::nat). g i (p - i * cols)"
    show "(if p \<in> UNIV
           then fold (\<lambda>i v. if p \<in> {i * cols..<i * cols + cols} then ?h i p v else v) [0..<rows] v
           else v)
        = (if p \<in> {0..<rows * cols} then g (p div cols) (p mod cols) v else v)"
    proof (cases "p < rows * cols")
      case True
      then have pos: "0 < cols" by (cases cols) simp_all
      from True have i: "p div cols < rows"
        by (simp add: less_mult_imp_div_less)
      have decomp: "p = (p div cols) * cols + p mod cols"
        by simp
      have "p mod cols < cols"
        using pos by simp
      with decomp have mem: "p \<in> {(p div cols) * cols..<(p div cols) * cols + cols}"
        by (metis atLeastLessThan_iff le_add1 nat_add_left_cancel_less)
      have uniq: "i = p div cols" if "p \<in> {i * cols..<i * cols + cols}" for i
      proof -
        from that have "i * cols \<le> (p div cols) * cols + p mod cols"
          and "(p div cols) * cols + p mod cols < i * cols + cols"
          by simp_all
        with \<open>p mod cols < cols\<close> show ?thesis
          by (rule block_index_unique)
      qed
      have "fold (\<lambda>i v. if p \<in> {i * cols..<i * cols + cols} then ?h i p v else v) [0..<rows] v
              = ?h (p div cols) p v"
      proof (rule fold_cond_once [where x = "p div cols"
                 and S = "\<lambda>i. {i * cols..<i * cols + cols}" and h = ?h])
        show "distinct [0..<rows]" by simp
        show "p div cols \<in> set [0..<rows]" using i by simp
        show "p \<in> {(p div cols) * cols..<(p div cols) * cols + cols}" by (rule mem)
        show "p \<notin> {y * cols..<y * cols + cols}"
          if "y \<in> set [0..<rows]" and "y \<noteq> p div cols" for y
          using that uniq by blast
      qed
      moreover have "p - (p div cols) * cols = p mod cols"
        by (simp add: minus_div_mult_eq_mod)
      ultimately show ?thesis using True by simp
    next
      case False
      have out: "p \<notin> {i * cols..<i * cols + cols}" if "i < rows" for i
      proof -
        from that have "Suc i * cols \<le> rows * cols"
          by (intro mult_le_mono1) simp
        with False show ?thesis by simp
      qed
      have "fold (\<lambda>i v. if p \<in> {i * cols..<i * cols + cols} then ?h i p v else v) [0..<rows] v = v"
      proof (rule fold_cond_not_mem [where S = "\<lambda>i. {i * cols..<i * cols + cols}" and h = ?h])
        show "p \<notin> {y * cols..<y * cols + cols}" if "y \<in> set [0..<rows]" for y
          using that out by simp
      qed
      with False show ?thesis by simp
    qed
  qed
qed

lemma pointwise_repeat:
  assumes "\<And>i. i < n \<Longrightarrow> pointwise (B i) L S (\<lambda>p v. v + t i p)"
  shows "pointwise (for_loop n B) L S (\<lambda>p v. foldl (+) v (map (\<lambda>i. t i p) [0..<n]))"
proof -
  have "pointwise (for_loop n B) L UNIV
     (\<lambda>p v. fold (\<lambda>i v. if p \<in> S then v + t i p else v) [0..<n] v)"
    by (rule pointwise_for_loop) (rule assms)
  then show ?thesis
  proof (rule pointwise_weaken)
    fix p and v :: 'a
    have "fold (\<lambda>i v. v + t i p) [0..<n] v = foldl (+) v (map (\<lambda>i. t i p) [0..<n])"
      by (simp add: foldl_conv_fold fold_map comp_def)
    moreover have "p \<notin> S \<Longrightarrow> fold (\<lambda>i v. if p \<in> S then v + t i p else v) [0..<n] v = v"
      by (rule fold_cond_not_mem [where S = "\<lambda>i. S" and h = "\<lambda>i p v. v + t i p"]) simp
    moreover have "p \<in> S \<Longrightarrow> fold (\<lambda>i v. if p \<in> S then v + t i p else v) [0..<n] v
                      = fold (\<lambda>i v. v + t i p) [0..<n] v"
      by (rule fold_cond_all_mem [where S = "\<lambda>i. S" and h = "\<lambda>i p v. v + t i p"]) simp
    ultimately show "(if p \<in> UNIV then fold (\<lambda>i v. if p \<in> S then v + t i p else v) [0..<n] v else v)
           = (if p \<in> S then foldl (+) v (map (\<lambda>i. t i p) [0..<n]) else v)"
      by simp
  qed
qed

lemma Linear_forward_data_pointwise:
  "pointwise (Linear_forward_data batch ni no w b x) L {0..<batch * no}
     (\<lambda>p v. foldl (+) (b ! (p mod no))
               (map (\<lambda>k. x ! ((p div no) * ni + k) * w ! (k * no + p mod no)) [0..<ni]))"
  unfolding Linear_forward_data_def
  by (rule pointwise_matrix
        [where g = "\<lambda>i j v. foldl (+) (b ! j) (map (\<lambda>k. x ! (i * ni + k) * w ! (k * no + j)) [0..<ni])"],
      rule pointwise_row
        [where g = "\<lambda>j v. foldl (+) (b ! j) (map (\<lambda>k. x ! (i * ni + k) * w ! (k * no + j)) [0..<ni])" for i],
      rule Linear_forward_cell)

lemma Tensor_size_2:
  assumes "0 < a" and "0 < b" and "a * b < 2 ^ 64"
  shows "Tensor_size (t\<lparr>shape := [a, b]\<rparr>) = Inr (a * b)"
proof -
  from assms have "a \<le> a * b"
    by simp
  from this assms(3) have "a < 2 ^ 64"
    by (rule le_less_trans)
  with assms show ?thesis
    by (simp add: Tensor_size_def validate_shape_def size_t_mul_def)
qed

lemma Linear_forward_success:
  assumes "shape (weight l) = [ni, no]" and "length (data (weight l)) = ni * no"
    and "length (data (bias l)) = no"
    and "shape input = [batch, ni]" and "length (data input) = batch * ni"
    and "0 < batch" and "0 < no" and "batch * no < 2 ^ 64"
    and "\<not> resize_throws (data output) (batch * no)"
  shows "Linear_forward l input output =
           Inr \<lparr>shape = [batch, no],
                data = Linear_forward_data batch ni no (data (weight l)) (data (bias l))
                         (data input) (vector_resize 0 (data output) (batch * no)),
                grad = grad output\<rparr>"
  using assms Tensor_size_2 [OF assms(6,7,8), of "output"]
  by (simp add: Linear_forward_def resize_cases length_vector_resize)

lemma Linear_forward_length_error:
  assumes "shape (weight l) = [ni, no]" and "shape input = [batch, ni]"
    and "0 < batch" and "0 < no" and "batch * no < 2 ^ 64"
    and "resize_throws (data output) (batch * no)"
  shows "Linear_forward l input output = Inl LengthError"
  using assms Tensor_size_2 [OF assms(3,4,5), of "output"]
  by (simp add: Linear_forward_def resize_cases)

text \<open>Evaluation of binary32 arithmetic on given values.\<close>

lemmas binary32_eval = binary32_of_ratio_def [unfolded Let_def] round_binary32_def [unfolded Let_def]
  round_half_even_def [unfolded Let_def] bit_length.simps plus_binary32_def times_binary32_def
  zero_binary32_def min_def max_def

lemma round_binary32_examples:
  "round_binary32 16777217 0 = Fin32 8388608 1"
  "round_binary32 16777219 0 = Fin32 8388610 1"
  "round_binary32 (- 16777219) 0 = Fin32 (- 8388610) 1"
  "round_binary32 1 (- 150) = Fin32 0 (- 149)"
  "round_binary32 3 (- 150) = Fin32 2 (- 149)"
  "round_binary32 16777215 104 = Fin32 16777215 104"
  "round_binary32 33554431 103 = PInf32"
  by (simp_all add: binary32_eval)

lemma binary32_literals:
  "binary32_of_ratio 1 10 = Fin32 13421773 (- 27)"
  "binary32_of_ratio 2 10 = Fin32 13421773 (- 26)"
  "binary32_of_ratio 3 10 = Fin32 10066330 (- 25)"
  "binary32_of_ratio 4 10 = Fin32 13421773 (- 25)"
  "binary32_of_ratio 5 10 = Fin32 8388608 (- 24)"
  "binary32_of_ratio 6 10 = Fin32 10066330 (- 24)"
  "binary32_of_ratio 32 100 = Fin32 10737418 (- 25)"
  "binary32_of_ratio 48 100 = Fin32 16106127 (- 25)"
  "binary32_of_ratio 59 100 = Fin32 9898557 (- 24)"
  "binary32_of_ratio 84 100 = Fin32 14092861 (- 24)"
  by (simp_all add: binary32_eval)

lemma list_update_Cons_numeral: "(x # xs)[numeral k := y] = x # xs[pred_numeral k := y]"
  by (simp add: numeral_eq_Suc)

lemma Linear_forward_LinearVSTorch:
  "Linear_forward LinearVSTorch_linear LinearVSTorch_input Tensor_new
     = Inr \<lparr>shape = [2, 2],
            data = [Fin32 10737418 (- 25), Fin32 16106128 (- 25),
                    Fin32 9898558 (- 24), Fin32 14092862 (- 24)],
            grad = []\<rparr>"
  unfolding LinearVSTorch_linear_def LinearVSTorch_input_def binary32_literals
  by (simp add: Linear_forward_def tensor_defs Linear_forward_data_def for_loop_def upt_conv_Cons
        list_update_Cons_numeral)
     (simp add: binary32_eval, simp add: eval_nat_numeral)

text \<open>
  Claim C1, as amended. For an input of shape \<open>[batch, in_features]\<close> with populated data (and
  a layer whose weight has shape \<open>[in_features, out_features]\<close>, both populated),
  \<^verbatim>\<open>Linear::forward\<close> returns an output of shape \<open>[batch, out_features]\<close> in which
  \<open>output[b, j]\<close> is \<open>bias[j]\<close> plus the products \<open>input[b, k] * weight[k, j]\<close>, added one
  after the other for \<open>k = 0, 1, \<dots>\<close>; the only failure is the \<^verbatim>\<open>std::length_error\<close> of
  \<^verbatim>\<open>output.resize()\<close>, when the output buffer would have to grow beyond \<^verbatim>\<open>max_size()\<close>.
  For the weight, bias and input of the reference test the output computed in
  binary32 is \<open>10737418 / 2\<^sup>2\<^sup>5\<close>, \<open>16106128 / 2\<^sup>2\<^sup>5\<close>, \<open>9898558 / 2\<^sup>2\<^sup>4\<close>, \<open>14092862 / 2\<^sup>2\<^sup>4\<close>
  (0.31999999, 0.48000002, 0.59000003, 0.84000003), each within \<open>10\<^sup>-\<^sup>7\<close> of the
  reference values 0.32, 0.48, 0.59 and 0.84.
\<close>

theorem Linear_forward_output:
  "(shape (weight l) = [ni, no] \<and> length (data (weight l)) = ni * no
      \<and> length (data (bias l)) = no
      \<and> shape input = [batch, ni] \<and> length (data input) = batch * ni
      \<and> 0 < batch \<and> 0 < no \<and> batch * no < 2 ^ 64 \<longrightarrow>
    (resize_throws (data output) (batch * no) \<longrightarrow>
       Linear_forward l input output = Inl LengthError)
    \<and> (\<not> resize_throws (data output) (batch * no) \<longrightarrow>
    (\<exists>out. Linear_forward l input output = Inr out
       \<and> shape out = [batch, no] \<and> length (data out) = batch * no
       \<and> (\<forall>b<batch. \<forall>j<no.
             data out ! (b * no + j) =
               foldl (+) (data (bias l) ! j)
                 (map (\<lambda>k. data input ! (b * ni + k) * data (weight l) ! (k * no + j))
                    [0..<ni])))))
   \<and> Linear_forward LinearVSTorch_linear LinearVSTorch_input Tensor_new
       = Inr \<lparr>shape = [2, 2],
              data = [Fin32 10737418 (- 25), Fin32 16106128 (- 25),
                      Fin32 9898558 (- 24), Fin32 14092862 (- 24)],
              grad = []\<rparr>
   \<and> binary32_near (Fin32 10737418 (- 25)) (32 / 100) (1 / 10 ^ 7)
   \<and> binary32_near (Fin32 16106128 (- 25)) (48 / 100) (1 / 10 ^ 7)
   \<and> binary32_near (Fin32 9898558 (- 24)) (59 / 100) (1 / 10 ^ 7)
   \<and> binary32_near (Fin32 14092862 (- 24)) (84 / 100) (1 / 10 ^ 7)"
proof (intro conjI impI)
  show "Linear_forward LinearVSTorch_linear LinearVSTorch_input Tensor_new
       = Inr \<lparr>shape = [2, 2],
              data = [Fin32 10737418 (- 25), Fin32 16106128 (- 25),
                      Fin32 9898558 (- 24), Fin32 14092862 (- 24)],
              grad = []\<rparr>"
    by (rule Linear_forward_LinearVSTorch)
  show "binary32_near (Fin32 10737418 (- 25)) (32 / 100) (1 / 10 ^ 7)"
    and "binary32_near (Fin32 16106128 (- 25)) (48 / 100) (1 / 10 ^ 7)"
    and "binary32_near (Fin32 9898558 (- 24)) (59 / 100) (1 / 10 ^ 7)"
    and "binary32_near (Fin32 14092862 (- 24)) (84 / 100) (1 / 10 ^ 7)"
    by (simp_all add: binary32_near_def)
next
  assume a: "shape (weight l) = [ni, no] \<and> length (data (weight l)) = ni * no
      \<and> length (data (bias l)) = no
      \<and> shape input = [batch, ni] \<and> length (data input) = batch * ni
      \<and> 0 < batch \<and> 0 < no \<and> batch * no < 2 ^ 64"
  assume "resize_throws (data output) (batch * no)"
  with a show "Linear_forward l input output = Inl LengthError"
    by (intro Linear_forward_length_error [where ni = ni and no = no and batch = batch]) simp_all
next
  assume a: "shape (weight l) = [ni, no] \<and> length (data (weight l)) = ni * no
      \<and> length (data (bias l)) = no
      \<and> shape input = [batch, ni] \<and> length (data input) = batch * ni
      \<and> 0 < batch \<and> 0 < no \<and> batch * no < 2 ^ 64"
  assume fits: "\<not> resize_throws (data output) (batch * no)"
  let ?init = "vector_resize 0 (data output) (batch * no)"
  let ?d = "Linear_forward_data batch ni no (data (weight l)) (data (bias l)) (data input) ?init"
  have res: "Linear_forward l input output = Inr \<lparr>shape = [batch, no], data = ?d, grad = grad output\<rparr>"
    using a fits by (intro Linear_forward_success) simp_all
  have pw: "pointwise (Linear_forward_data batch ni no (data (weight l)) (data (bias l)) (data input))
          (batch * no) {0..<batch * no}
          (\<lambda>p v. foldl (+) (data (bias l) ! (p mod no))
               (map (\<lambda>k. data input ! ((p div no) * ni + k) * data (weight l) ! (k * no + p mod no))
                  [0..<ni]))"
    by (rule Linear_forward_data_pointwise)
  have len0: "length ?init = batch * no"
    by (rule length_vector_resize)
  have len: "length ?d = batch * no"
    by (rule pointwise_length [OF pw len0])
  have nth: "?d ! (b * no + j) =
               foldl (+) (data (bias l) ! j)
                 (map (\<lambda>k. data input ! (b * ni + k) * data (weight l) ! (k * no + j)) [0..<ni])"
    if "b < batch" and "j < no" for b j
  proof -
    from that have "Suc b * no \<le> batch * no"
      by (intro mult_le_mono1) simp
    with that have p: "b * no + j < batch * no"
      by simp
    from pointwise_nth [OF pw len0 p] p that show ?thesis
      by simp
  qed
  show "\<exists>out. Linear_forward l input output = Inr out
       \<and> shape out = [batch, no] \<and> length (data out) = batch * no
       \<and> (\<forall>b<batch. \<forall>j<no.
             data out ! (b * no + j) =
               foldl (+) (data (bias l) ! j)
                 (map (\<lambda>k. data input ! (b * ni + k) * data (weight l) ! (k * no + j))
                    [0..<ni]))"
    using res len nth by simp
qed


theorem Linear_forward_output_witness:
  "\<exists>out. Linear_forward
        \<lparr>weight = \<lparr>shape = [3, 2], data = [0.1, 0.2, 0.3, 0.4, 0.5, 0.6], grad = []\<rparr>,
         bias = \<lparr>shape = [2], data = [0.1, 0.2], grad = []\<rparr>\<rparr>
        \<lparr>shape = [2, 3], data = [0.1, 0.2, 0.3, 0.4, 0.5, 0.6], grad = []\<rparr>
        Tensor_new = Inr out
     \<and> shape out = [2, 2] \<and> length (data out) = 4
     \<and> data out ! 2 = (((0.1 + 0.4 * 0.1) + 0.5 * 0.3) + 0.6 * 0.5 :: real)"
proof -
  let ?l = "\<lparr>weight = \<lparr>shape = [3, 2], data = [0.1, 0.2, 0.3, 0.4, 0.5, 0.6 :: real], grad = []\<rparr>,
         bias = \<lparr>shape = [2], data = [0.1, 0.2], grad = []\<rparr>\<rparr>"
  let ?x = "\<lparr>shape = [2, 3], data = [0.1, 0.2, 0.3, 0.4, 0.5, 0.6 :: real], grad = []\<rparr>"
  have "shape (weight ?l) = [3, 2] \<and> length (data (weight ?l)) = 3 * 2
      \<and> length (data (bias ?l)) = 2
      \<and> shape ?x = [2, 3] \<and> length (data ?x) = 2 * 3
      \<and> 0 < (2::nat) \<and> 0 < (2::nat) \<and> (2::nat) * 2 < 2 ^ 64"
    by simp
  moreover have "\<not> resize_throws (data (Tensor_new :: real Tensor)) (2 * 2)"
    by (simp add: resize_throws_def float_vector_max_size_def Tensor_new_def)
  ultimately obtain out where out: "Linear_forward ?l ?x Tensor_new = Inr out"
      "shape out = [2, 2]" "length (data out) = 2 * 2"
    and nth: "\<forall>b<2. \<forall>j<2. data out ! (b * 2 + j) =
               foldl (+) (data (bias ?l) ! j)
                 (map (\<lambda>k. data ?x ! (b * 3 + k) * data (weight ?l) ! (k * 2 + j)) [0..<3])"
    using conjunct1 [OF Linear_forward_output [of ?l 3 2 ?x 2 Tensor_new]]
    by blast
  from nth [rule_format, of 1 0] have "data out ! (1 * 2 + 0) =
               foldl (+) (data (bias ?l) ! 0)
                 (map (\<lambda>k. data ?x ! (1 * 3 + k) * data (weight ?l) ! (k * 2 + 0)) [0..<3])"
    by simp
  then have "data out ! 2 = (((0.1 + 0.4 * 0.1) + 0.5 * 0.3) + 0.6 * 0.5 :: real)"
    by (simp add: upt_conv_Cons)
  with out show ?thesis
    by simp
qed


text \<open>
  The output of the reference test is not the reference itself: three of its four
  elements differ from the binary32 values nearest to 0.48, 0.59 and 0.84, and none
  is one of the four decimal fractions.
\<close>

theorem Linear_forward_reference_counterexample:
  "Linear_forward LinearVSTorch_linear LinearVSTorch_input Tensor_new
     = Inr \<lparr>shape = [2, 2],
            data = [Fin32 10737418 (- 25), Fin32 16106128 (- 25),
                    Fin32 9898558 (- 24), Fin32 14092862 (- 24)],
            grad = []\<rparr>
   \<and> Fin32 16106128 (- 25) \<noteq> binary32_of_ratio 48 100
   \<and> Fin32 9898558 (- 24) \<noteq> binary32_of_ratio 59 100
   \<and> Fin32 14092862 (- 24) \<noteq> binary32_of_ratio 84 100
   \<and> binary32_value (Fin32 10737418 (- 25)) \<noteq> Finite (32 / 100)
   \<and> binary32_value (Fin32 16106128 (- 25)) \<noteq> Finite (48 / 100)
   \<and> binary32_value (Fin32 9898558 (- 24)) \<noteq> Finite (59 / 100)
   \<and> binary32_value (Fin32 14092862 (- 24)) \<noteq> Finite (84 / 100)"
  using Linear_forward_LinearVSTorch by (simp add: binary32_literals)


subsection \<open>Linear::backward\<close>

lemma for_loop_pair:
  "for_loop n (\<lambda>i (a, b). (F i a, G i b)) s = (for_loop n F (fst s), for_loop n G (snd s))"
  by (induction n) (simp_all add: for_loop_0 for_loop_Suc)

lemma Linear_backward_grads_split:
  "Linear_backward_grads batch ni no w og x (ig, wg) =
     (for_loop batch (\<lambda>i.
        for_loop ni (\<lambda>j ig1.
          for_loop no (\<lambda>k ig2.
              ig2[i * ni + j := ig2 ! (i * ni + j) + og ! (i * no + k) * w ! (j * no + k)])
            (ig1[i * ni + j := 0]))) ig,
      for_loop batch (\<lambda>i.
        for_loop ni (\<lambda>j.
          for_loop no (\<lambda>k wg2.
              wg2[j * no + k := wg2 ! (j * no + k) + og ! (i * no + k) * x ! (i * ni + j)]))) wg)"
proof -
  have inner: "(\<lambda>(ig1, wg1).
         for_loop no (\<lambda>k (ig2, wg2).
             (ig2[i * ni + j := ig2 ! (i * ni + j) + og ! (i * no + k) * w ! (j * no + k)],
              wg2[j * no + k := wg2 ! (j * no + k) + og ! (i * no + k) * x ! (i * ni + j)]))
           (ig1[i * ni + j := 0], wg1))
      = (\<lambda>(ig1, wg1).
          (for_loop no (\<lambda>k ig2.
              ig2[i * ni + j := ig2 ! (i * ni + j) + og ! (i * no + k) * w ! (j * no + k)])
             (ig1[i * ni + j := 0]),
           for_loop no (\<lambda>k wg2.
              wg2[j * no + k := wg2 ! (j * no + k) + og ! (i * no + k) * x ! (i * ni + j)]) wg1))"
    for i j
    by (rule ext) (simp add: for_loop_pair split: prod.splits)
  have middle: "for_loop ni (\<lambda>j (ig1, wg1).
         for_loop no (\<lambda>k (ig2, wg2).
             (ig2[i * ni + j := ig2 ! (i * ni + j) + og ! (i * no + k) * w ! (j * no + k)],
              wg2[j * no + k := wg2 ! (j * no + k) + og ! (i * no + k) * x ! (i * ni + j)]))
           (ig1[i * ni + j := 0], wg1))
      = (\<lambda>(a, b).
          (for_loop ni (\<lambda>j ig1.
             for_loop no (\<lambda>k ig2.
               ig2[i * ni + j := ig2 ! (i * ni + j) + og ! (i * no + k) * w ! (j * no + k)])
             (ig1[i * ni + j := 0])) a,
           for_loop ni (\<lambda>j.
             for_loop no (\<lambda>k wg2.
               wg2[j * no + k := wg2 ! (j * no + k) + og ! (i * no + k) * x ! (i * ni + j)])) b))"
    for i
    unfolding inner by (rule ext) (simp add: for_loop_pair split: prod.splits)
  show ?thesis
    unfolding Linear_backward_grads_def middle by (simp add: for_loop_pair)
qed

lemma Linear_backward_input_grad_pointwise:
  "pointwise
     (for_loop batch (\<lambda>i.
        for_loop ni (\<lambda>j ig1.
          for_loop no (\<lambda>k ig2.
              ig2[i * ni + j := ig2 ! (i * ni + j) + og ! (i * no + k) * w ! (j * no + k)])
            (ig1[i * ni + j := 0]))))
     L {0..<batch * ni}
     (\<lambda>p v. foldl (+) 0
               (map (\<lambda>k. og ! ((p div ni) * no + k) * w ! ((p mod ni) * no + k)) [0..<no]))"
  by (rule pointwise_matrix
        [where g = "\<lambda>i j v. foldl (+) 0 (map (\<lambda>k. og ! (i * no + k) * w ! (j * no + k)) [0..<no])"],
      rule pointwise_row
        [where g = "\<lambda>j v. foldl (+) 0 (map (\<lambda>k. og ! (i * no + k) * w ! (j * no + k)) [0..<no])" for i],
      rule Linear_forward_cell)

lemma Linear_backward_weight_grad_pointwise:
  "pointwise
     (for_loop batch (\<lambda>i.
        for_loop ni (\<lambda>j.
          for_loop no (\<lambda>k wg2.
              wg2[j * no + k := wg2 ! (j * no + k) + og ! (i * no + k) * x ! (i * ni + j)]))))
     L {0..<ni * no}
     (\<lambda>p v. foldl (+) v
               (map (\<lambda>i. og ! (i * no + p mod no) * x ! (i * ni + p div no)) [0..<batch]))"
  by (rule pointwise_repeat [where t = "\<lambda>i p. og ! (i * no + p mod no) * x ! (i * ni + p div no)"],
      rule pointwise_matrix [where g = "\<lambda>j k v. v + og ! (i * no + k) * x ! (i * ni + j)" for i],
      rule pointwise_row [where g = "\<lambda>k v. v + og ! (i * no + k) * x ! (i * ni + j)" for i j],
      rule pointwise_update)

lemma Linear_backward_bias_pointwise:
  "pointwise (Linear_backward_bias batch no og) L {0..<no}
     (\<lambda>p v. foldl (+) v (map (\<lambda>i. og ! (i * no + p)) [0..<batch]))"
proof -
  have row: "pointwise (for_loop no (\<lambda>k bg. bg[k := bg ! k + og ! (i * no + k)])) L {0..<no}
               (\<lambda>p v. v + og ! (i * no + p))" for i
    using pointwise_row [where base = 0 and n = no and L = L
        and B = "\<lambda>k bg. bg[k := bg ! k + og ! (i * no + k)]"
        and g = "\<lambda>k v. v + og ! (i * no + k)"]
      pointwise_update [where q = k and f = "\<lambda>v. v + og ! (i * no + k)" and L = L for k]
    by simp
  show ?thesis
    unfolding Linear_backward_bias_def
    by (rule pointwise_repeat [where t = "\<lambda>i p. og ! (i * no + p)"]) (rule row)
qed


lemma Tensor_size_shape1:
  assumes "shape t = [a]" and "0 < a" and "a < 2 ^ 64"
  shows "Tensor_size t = Inr a"
  using assms by (simp add: Tensor_size_def validate_shape_def size_t_mul_def)

lemma Tensor_size_shape2:
  assumes "shape t = [a, b]" and "0 < a" and "0 < b" and "a * b < 2 ^ 64"
  shows "Tensor_size t = Inr (a * b)"
proof -
  have "t\<lparr>shape := [a, b]\<rparr> = t"
    using assms(1) by simp
  with Tensor_size_2 [OF assms(2,3,4), of t] show ?thesis
    by simp
qed

lemma Linear_backward_success:
  assumes "shape (weight l) = [ni, no]" and "length (data (weight l)) = ni * no"
    and "shape (bias l) = [no]"
    and "shape output = [batch, no]" and "length (grad output) = batch * no"
    and "shape input = [batch, ni]" and "length (data input) = batch * ni"
    and "0 < batch" and "0 < ni" and "0 < no"
    and "batch * ni < 2 ^ 64" and "ni * no < 2 ^ 64" and "no < 2 ^ 64"
    and "\<not> resize_throws (grad input) (batch * ni)"
    and "\<not> resize_throws (grad (weight l)) (ni * no)"
    and "\<not> resize_throws (grad (bias l)) no"
  shows "Linear_backward l output input =
           Inr (\<lparr>weight = (weight l)\<lparr>grad :=
                    snd (Linear_backward_grads batch ni no (data (weight l)) (grad output)
                           (data input)
                           (vector_resize 0 (grad input) (batch * ni),
                            vector_resize 0 (grad (weight l)) (ni * no)))\<rparr>,
                  bias = (bias l)\<lparr>grad :=
                    Linear_backward_bias batch no (grad output)
                      (vector_resize 0 (grad (bias l)) no)\<rparr>\<rparr>,
                input\<lparr>grad :=
                    fst (Linear_backward_grads batch ni no (data (weight l)) (grad output)
                           (data input)
                           (vector_resize 0 (grad input) (batch * ni),
                            vector_resize 0 (grad (weight l)) (ni * no)))\<rparr>)"
proof -
  have "resize_grad input = Inr (input\<lparr>grad := vector_resize 0 (grad input) (batch * ni)\<rparr>)"
    using Tensor_size_shape2 [OF assms(6,8,9,11)] assms(14) by (simp add: resize_grad_cases)
  moreover have "resize_grad (weight l) =
      Inr ((weight l)\<lparr>grad := vector_resize 0 (grad (weight l)) (ni * no)\<rparr>)"
    using Tensor_size_shape2 [OF assms(1,9,10,12)] assms(15) by (simp add: resize_grad_cases)
  moreover have "resize_grad (bias l) =
      Inr ((bias l)\<lparr>grad := vector_resize 0 (grad (bias l)) no\<rparr>)"
    using Tensor_size_shape1 [OF assms(3,10,13)] assms(16) by (simp add: resize_grad_cases)
  ultimately show ?thesis
    using assms
    by (simp add: Linear_backward_def length_vector_resize split_beta)
qed


lemma Linear_backward_length_error:
  assumes "shape (weight l) = [ni, no]" and "shape (bias l) = [no]"
    and "shape output = [batch, no]" and "shape input = [batch, ni]"
    and "0 < batch" and "0 < ni" and "0 < no"
    and "batch * ni < 2 ^ 64" and "ni * no < 2 ^ 64" and "no < 2 ^ 64"
    and "resize_throws (grad input) (batch * ni)
         \<or> resize_throws (grad (weight l)) (ni * no)
         \<or> resize_throws (grad (bias l)) no"
  shows "Linear_backward l output input = Inl LengthError"
proof -
  have i: "Tensor_size input = Inr (batch * ni)"
    by (rule Tensor_size_shape2 [OF assms(4,5,6,8)])
  have w: "Tensor_size (weight l) = Inr (ni * no)"
    by (rule Tensor_size_shape2 [OF assms(1,6,7,9)])
  have b: "Tensor_size (bias l) = Inr no"
    by (rule Tensor_size_shape1 [OF assms(2,7,10)])
  from assms(1,3,11) show ?thesis
    by (auto simp: Linear_backward_def resize_grad_cases i w b)
qed

lemma block_index_less:
  assumes "i < (rows::nat)" and "j < cols"
  shows "i * cols + j < rows * cols"
proof -
  from assms(1) have "Suc i * cols \<le> rows * cols"
    by (intro mult_le_mono1) simp
  with assms(2) show ?thesis
    by simp
qed

text \<open>
  Claim C2. For an upstream tensor of shape \<open>[batch, out_features]\<close> with a populated
  \<open>grad\<close> and an input of shape \<open>[batch, in_features]\<close> that still holds the data of
  the forward call, \<^verbatim>\<open>Linear::backward\<close> succeeds and
  \<^item> every element of \<open>input.grad\<close> is overwritten: \<open>input.grad[b, k]\<close> is the sum,
    started from 0 and taken in the order \<open>j = 0, 1, \<dots>\<close>, of
    \<open>output.grad[b, j] * weight[k, j]\<close>, whatever the buffer held before;
  \<^item> \<open>weight.grad[k, j]\<close> is its prior content to which the terms
    \<open>output.grad[b, j] * input[b, k]\<close> are added for \<open>b = 0, 1, \<dots>\<close>, and \<open>bias.grad[j]\<close>
    its prior content to which the terms \<open>output.grad[b, j]\<close> are added.
  The prior content of a parameter gradient is the buffer after \<^verbatim>\<open>resize_grad\<close>: the
  buffer itself when it is already sized, zeros when it was never sized.
  The call fails only when one of the three \<^verbatim>\<open>resize_grad\<close> calls would have to grow a
  gradient buffer beyond \<^verbatim>\<open>max_size()\<close>, with \<^verbatim>\<open>std::length_error\<close>; the three sizes are
  those of \<open>input.data\<close>, \<open>weight.data\<close> and one row of \<open>output.grad\<close>, buffers that exist.
\<close>

theorem Linear_backward_gradients:
  assumes "shape (weight l) = [ni, no]" and "length (data (weight l)) = ni * no"
    and "shape (bias l) = [no]"
    and "shape output = [batch, no]" and "length (grad output) = batch * no"
    and "shape input = [batch, ni]" and "length (data input) = batch * ni"
    and "0 < batch" and "0 < ni" and "0 < no"
    and "batch * ni < 2 ^ 64" and "ni * no < 2 ^ 64" and "no < 2 ^ 64"
  shows "(resize_throws (grad input) (batch * ni)
          \<or> resize_throws (grad (weight l)) (ni * no)
          \<or> resize_throws (grad (bias l)) no \<longrightarrow>
          Linear_backward l output input = Inl LengthError)
   \<and> (\<not> (resize_throws (grad input) (batch * ni)
           \<or> resize_throws (grad (weight l)) (ni * no)
           \<or> resize_throws (grad (bias l)) no) \<longrightarrow>
   (\<exists>l' inp'. Linear_backward l output input = Inr (l', inp')
     \<and> shape inp' = shape input \<and> data inp' = data input
     \<and> length (grad inp') = batch * ni
     \<and> (\<forall>b<batch. \<forall>k<ni.
           grad inp' ! (b * ni + k) =
             foldl (+) 0
               (map (\<lambda>j. grad output ! (b * no + j) * data (weight l) ! (k * no + j)) [0..<no]))
     \<and> data (weight l') = data (weight l) \<and> data (bias l') = data (bias l)
     \<and> (\<forall>k<ni. \<forall>j<no.
           grad (weight l') ! (k * no + j) =
             foldl (+) (vector_resize 0 (grad (weight l)) (ni * no) ! (k * no + j))
               (map (\<lambda>b. grad output ! (b * no + j) * data input ! (b * ni + k)) [0..<batch]))
     \<and> (\<forall>j<no.
           grad (bias l') ! j =
             foldl (+) (vector_resize 0 (grad (bias l)) no ! j)
               (map (\<lambda>b. grad output ! (b * no + j)) [0..<batch]))))"
proof (intro conjI impI)
  assume "resize_throws (grad input) (batch * ni)
          \<or> resize_throws (grad (weight l)) (ni * no)
          \<or> resize_throws (grad (bias l)) no"
  with assms show "Linear_backward l output input = Inl LengthError"
    by (intro Linear_backward_length_error [where ni = ni and no = no and batch = batch])
next
  assume fits: "\<not> (resize_throws (grad input) (batch * ni)
           \<or> resize_throws (grad (weight l)) (ni * no)
           \<or> resize_throws (grad (bias l)) no)"
  then have f1: "\<not> resize_throws (grad input) (batch * ni)"
    and f2: "\<not> resize_throws (grad (weight l)) (ni * no)"
    and f3: "\<not> resize_throws (grad (bias l)) no"
    by simp_all
  let ?ig0 = "vector_resize 0 (grad input) (batch * ni)"
  let ?wg0 = "vector_resize 0 (grad (weight l)) (ni * no)"
  let ?bg0 = "vector_resize 0 (grad (bias l)) no"
  let ?IG = "for_loop batch (\<lambda>i.
        for_loop ni (\<lambda>j ig1.
          for_loop no (\<lambda>k ig2.
              ig2[i * ni + j := ig2 ! (i * ni + j)
                  + grad output ! (i * no + k) * data (weight l) ! (j * no + k)])
            (ig1[i * ni + j := 0])))"
  let ?WG = "for_loop batch (\<lambda>i.
        for_loop ni (\<lambda>j.
          for_loop no (\<lambda>k wg2.
              wg2[j * no + k := wg2 ! (j * no + k)
                  + grad output ! (i * no + k) * data input ! (i * ni + j)])))"
  let ?BG = "Linear_backward_bias batch no (grad output)"
  have split: "Linear_backward_grads batch ni no (data (weight l)) (grad output) (data input)
                 (?ig0, ?wg0) = (?IG ?ig0, ?WG ?wg0)"
    by (rule Linear_backward_grads_split)
  have res: "Linear_backward l output input =
      Inr (\<lparr>weight = (weight l)\<lparr>grad := ?WG ?wg0\<rparr>, bias = (bias l)\<lparr>grad := ?BG ?bg0\<rparr>\<rparr>,
           input\<lparr>grad := ?IG ?ig0\<rparr>)"
    using Linear_backward_success [OF assms f1 f2 f3] by (simp only: split fst_conv snd_conv)
  have pi: "pointwise ?IG (batch * ni) {0..<batch * ni}
     (\<lambda>p v. foldl (+) 0
               (map (\<lambda>k. grad output ! ((p div ni) * no + k)
                          * data (weight l) ! ((p mod ni) * no + k)) [0..<no]))"
    by (rule Linear_backward_input_grad_pointwise)
  have pw: "pointwise ?WG (ni * no) {0..<ni * no}
     (\<lambda>p v. foldl (+) v
               (map (\<lambda>i. grad output ! (i * no + p mod no) * data input ! (i * ni + p div no))
                  [0..<batch]))"
    by (rule Linear_backward_weight_grad_pointwise)
  have pb: "pointwise ?BG no {0..<no}
     (\<lambda>p v. foldl (+) v (map (\<lambda>i. grad output ! (i * no + p)) [0..<batch]))"
    by (rule Linear_backward_bias_pointwise)
  have li: "length ?ig0 = batch * ni" and lw: "length ?wg0 = ni * no" and lb: "length ?bg0 = no"
    by (rule length_vector_resize)+
  have len: "length (?IG ?ig0) = batch * ni"
    by (rule pointwise_length [OF pi li])
  have ig: "?IG ?ig0 ! (b * ni + k) =
             foldl (+) 0
               (map (\<lambda>j. grad output ! (b * no + j) * data (weight l) ! (k * no + j)) [0..<no])"
    if "b < batch" and "k < ni" for b k
    using pointwise_nth [OF pi li block_index_less [OF that]] block_index_less [OF that] that
    by simp
  have wg: "?WG ?wg0 ! (k * no + j) =
             foldl (+) (?wg0 ! (k * no + j))
               (map (\<lambda>b. grad output ! (b * no + j) * data input ! (b * ni + k)) [0..<batch])"
    if "k < ni" and "j < no" for k j
    using pointwise_nth [OF pw lw block_index_less [OF that]] block_index_less [OF that] that
    by simp
  have bg: "?BG ?bg0 ! j =
             foldl (+) (?bg0 ! j) (map (\<lambda>b. grad output ! (b * no + j)) [0..<batch])"
    if "j < no" for j
    using pointwise_nth [OF pb lb that] that by simp
  show "\<exists>l' inp'. Linear_backward l output input = Inr (l', inp')
     \<and> shape inp' = shape input \<and> data inp' = data input
     \<and> length (grad inp') = batch * ni
     \<and> (\<forall>b<batch. \<forall>k<ni.
           grad inp' ! (b * ni + k) =
             foldl (+) 0
               (map (\<lambda>j. grad output ! (b * no + j) * data (weight l) ! (k * no + j)) [0..<no]))
     \<and> data (weight l') = data (weight l) \<and> data (bias l') = data (bias l)
     \<and> (\<forall>k<ni. \<forall>j<no.
           grad (weight l') ! (k * no + j) =
             foldl (+) (vector_resize 0 (grad (weight l)) (ni * no) ! (k * no + j))
               (map (\<lambda>b. grad output ! (b * no + j) * data input ! (b * ni + k)) [0..<batch]))
     \<and> (\<forall>j<no.
           grad (bias l') ! j =
             foldl (+) (vector_resize 0 (grad (bias l)) no ! j)
               (map (\<lambda>b. grad output ! (b * no + j)) [0..<batch]))"
    using res len ig wg bg by simp
qed


theorem Linear_backward_gradients_witness:
  "\<exists>l' inp'. Linear_backward
        \<lparr>weight = \<lparr>shape = [3, 2], data = [0.1, 0.2, 0.3, 0.4, 0.5, 0.6],
                    grad = [1, 1, 1, 1, 1, 1]\<rparr>,
         bias = \<lparr>shape = [2], data = [0.1, 0.2], grad = []\<rparr>\<rparr>
        \<lparr>shape = [2, 2], data = [0.32, 0.48, 0.59, 0.84], grad = [1, 1, 1, 1]\<rparr>
        \<lparr>shape = [2, 3], data = [0.1, 0.2, 0.3, 0.4, 0.5, 0.6], grad = [9, 9, 9, 9, 9, 9]\<rparr>
      = Inr (l', inp')
     \<and> length (grad inp') = 6
     \<and> grad inp' ! 1 = ((0 + 1 * 0.3) + 1 * 0.4 :: real)
     \<and> grad (weight l') ! 2 = (1 + 1 * 0.2) + 1 * 0.5
     \<and> grad (bias l') ! 1 = (0 + 1) + 1"
proof -
  let ?l = "\<lparr>weight = \<lparr>shape = [3, 2], data = [0.1, 0.2, 0.3, 0.4, 0.5, 0.6 :: real],
                    grad = [1, 1, 1, 1, 1, 1]\<rparr>,
         bias = \<lparr>shape = [2], data = [0.1, 0.2], grad = []\<rparr>\<rparr>"
  let ?out = "\<lparr>shape = [2, 2], data = [0.32, 0.48, 0.59, 0.84 :: real], grad = [1, 1, 1, 1]\<rparr>"
  let ?x = "\<lparr>shape = [2, 3], data = [0.1, 0.2, 0.3, 0.4, 0.5, 0.6 :: real],
             grad = [9, 9, 9, 9, 9, 9]\<rparr>"
  have fits: "\<not> (resize_throws (grad ?x) (2 * 3)
           \<or> resize_throws (grad (weight ?l)) (3 * 2)
           \<or> resize_throws (grad (bias ?l)) 2)"
    by (simp add: resize_throws_def float_vector_max_size_def)
  have "\<exists>l' inp'. Linear_backward ?l ?out ?x = Inr (l', inp')
     \<and> shape inp' = shape ?x \<and> data inp' = data ?x
     \<and> length (grad inp') = 2 * 3
     \<and> (\<forall>b<2. \<forall>k<3.
           grad inp' ! (b * 3 + k) =
             foldl (+) 0
               (map (\<lambda>j. grad ?out ! (b * 2 + j) * data (weight ?l) ! (k * 2 + j)) [0..<2]))
     \<and> data (weight l') = data (weight ?l) \<and> data (bias l') = data (bias ?l)
     \<and> (\<forall>k<3. \<forall>j<2.
           grad (weight l') ! (k * 2 + j) =
             foldl (+) (vector_resize 0 (grad (weight ?l)) (3 * 2) ! (k * 2 + j))
               (map (\<lambda>b. grad ?out ! (b * 2 + j) * data ?x ! (b * 3 + k)) [0..<2]))
     \<and> (\<forall>j<2.
           grad (bias l') ! j =
             foldl (+) (vector_resize 0 (grad (bias ?l)) 2 ! j)
               (map (\<lambda>b. grad ?out ! (b * 2 + j)) [0..<2]))"
    by (rule mp [OF conjunct2 [OF Linear_backward_gradients [of ?l 3 2 ?out 2 ?x]] fits])
       simp_all
  then obtain l' inp' where res: "Linear_backward ?l ?out ?x = Inr (l', inp')"
      "length (grad inp') = 2 * 3"
    and ig: "\<forall>b<2. \<forall>k<3.
           grad inp' ! (b * 3 + k) =
             foldl (+) 0
               (map (\<lambda>j. grad ?out ! (b * 2 + j) * data (weight ?l) ! (k * 2 + j)) [0..<2])"
    and wg: "\<forall>k<3. \<forall>j<2.
           grad (weight l') ! (k * 2 + j) =
             foldl (+) (vector_resize 0 (grad (weight ?l)) (3 * 2) ! (k * 2 + j))
               (map (\<lambda>b. grad ?out ! (b * 2 + j) * data ?x ! (b * 3 + k)) [0..<2])"
    and bg: "\<forall>j<2.
           grad (bias l') ! j =
             foldl (+) (vector_resize 0 (grad (bias ?l)) 2 ! j)
               (map (\<lambda>b. grad ?out ! (b * 2 + j)) [0..<2])"
    by blast
  from ig [rule_format, of 0 1] have "grad inp' ! 1 = ((0 + 1 * 0.3) + 1 * 0.4 :: real)"
    by (simp add: upt_conv_Cons)
  moreover from wg [rule_format, of 1 0] have "grad (weight l') ! 2 = (1 + 1 * 0.2) + 1 * 0.5"
    by (simp add: upt_conv_Cons vector_resize_def)
  moreover from bg [rule_format, of 1] have "grad (bias l') ! 1 = (0 + 1) + 1"
    by (simp add: upt_conv_Cons vector_resize_def)
  ultimately show ?thesis
    using res by simp
qed


subsection \<open>Model::forward\<close>







subsection \<open>BatchNorm forward: running statistics\<close>

lemma for_loop_triple:
  "for_loop n (\<lambda>i (a, b, c). (F i a, G i b, H i c)) s =
     (for_loop n F (fst s), for_loop n G (fst (snd s)), for_loop n H (snd (snd s)))"
  by (induction n) (simp_all add: for_loop_0 for_loop_Suc)


lemma channel_mean_eq:
  "channel_mean M x idxs (length idxs) = batch_mean M (values_at x idxs)"
  by (simp add: channel_mean_def batch_mean_def values_at_def foldl_map)

lemma channel_var_eq:
  "channel_var M x idxs (length idxs) (batch_mean M (values_at x idxs))
     = batch_var M (values_at x idxs)"
  by (simp add: channel_var_def batch_var_def values_at_def foldl_map Let_def)

lemma length_idx1d: "length (idx1d batch_size nf f) = batch_size"
  by (simp add: idx1d_def)

lemma length_concat_const:
  "(\<And>x. x \<in> set xs \<Longrightarrow> length (f x) = k) \<Longrightarrow> length (concat (map f xs)) = length xs * k"
  by (induction xs) simp_all

lemma length_idx2d: "length (idx2d N C H W c) = N * H * W"
  by (simp add: idx2d_def length_concat_const)

lemma length_idx3d: "length (idx3d N C D H W c) = N * D * H * W"
  by (simp add: idx3d_def length_concat_const)

lemma BatchNorm_forward_channel_split:
  "BatchNorm_forward_channel M bn x idxs count c =
     (\<lambda>(rm, rv, od).
        (running_step bn (\<lambda>_. channel_mean M x idxs count) c rm,
         running_step bn (\<lambda>_. channel_var M x idxs count (channel_mean M x idxs count)) c rv,
         fold (\<lambda>idx out. out[idx := normalized M bn x idxs count c idx]) idxs od))"
  by (simp add: BatchNorm_forward_channel_def running_step_def normalized_def Let_def fun_eq_iff)

lemma running_step_cong: "running_step bn (\<lambda>_. stat c) c = running_step bn stat c"
  by (simp add: running_step_def fun_eq_iff)

lemma BatchNorm_forward_loop_split:
  "for_loop nf (\<lambda>c. BatchNorm_forward_channel M bn x (idxs c) count c) (rm, rv, od) =
     (for_loop nf (running_step bn (\<lambda>c. channel_mean M x (idxs c) count)) rm,
      for_loop nf (running_step bn
         (\<lambda>c. channel_var M x (idxs c) count (channel_mean M x (idxs c) count))) rv,
      for_loop nf (\<lambda>c. fold (\<lambda>idx out. out[idx := normalized M bn x (idxs c) count c idx])
                          (idxs c)) od)"
proof -
  have "(\<lambda>c. BatchNorm_forward_channel M bn x (idxs c) count c) =
        (\<lambda>c (rm, rv, od).
          (running_step bn (\<lambda>c. channel_mean M x (idxs c) count) c rm,
           running_step bn
             (\<lambda>c. channel_var M x (idxs c) count (channel_mean M x (idxs c) count)) c rv,
           fold (\<lambda>idx out. out[idx := normalized M bn x (idxs c) count c idx]) (idxs c) od))"
    by (simp add: BatchNorm_forward_channel_split running_step_def fun_eq_iff)
  then show ?thesis
    by (simp add: for_loop_triple)
qed





lemma BatchNorm1d_forward_Inr:
  assumes "BatchNorm1d_forward M bn input output = Inr (bn', out')"
  shows "\<exists>out. resize (output\<lparr>shape := [shape input ! 0, num_features bn]\<rparr>) = Inr out
           \<and> length (shape input) = 2 \<and> shape input ! 1 = num_features bn
           \<and> BatchNorm_forward_in_bounds bn (shape input ! 0 * num_features bn)
                (data input) (data out)
           \<and> BatchNorm_forward_loops M bn input out
                (idx1d (shape input ! 0) (num_features bn)) (shape input ! 0) = (bn', out')"
  using assms unfolding BatchNorm1d_forward_def Let_def
  by (auto split: if_splits sum.splits)

lemma BatchNorm2d_forward_Inr:
  assumes "BatchNorm2d_forward M bn input output = Inr (bn', out')"
  shows "\<exists>out. resize (output\<lparr>shape := [shape input ! 0, shape input ! 1,
                                           shape input ! 2, shape input ! 3]\<rparr>) = Inr out
           \<and> length (shape input) = 4 \<and> shape input ! 1 = num_features bn
           \<and> Tensor_size input = Inr (length (data input))
           \<and> BatchNorm_forward_in_bounds bn
                (shape input ! 0 * shape input ! 1 * shape input ! 2 * shape input ! 3)
                (data input) (data out)
           \<and> BatchNorm_forward_loops M bn input out
                (idx2d (shape input ! 0) (shape input ! 1) (shape input ! 2) (shape input ! 3))
                (shape input ! 0 * shape input ! 2 * shape input ! 3) = (bn', out')"
  using assms unfolding BatchNorm2d_forward_def Let_def
  by (auto split: if_splits sum.splits)

lemma BatchNorm3d_forward_Inr:
  assumes "BatchNorm3d_forward M bn input output = Inr (bn', out')"
  shows "\<exists>out. resize (output\<lparr>shape := [shape input ! 0, shape input ! 1, shape input ! 2,
                                           shape input ! 3, shape input ! 4]\<rparr>) = Inr out
           \<and> length (shape input) = 5 \<and> shape input ! 1 = num_features bn
           \<and> Tensor_size input = Inr (length (data input))
           \<and> BatchNorm_forward_in_bounds bn
                (shape input ! 0 * shape input ! 1 * shape input ! 2 * shape input ! 3
                   * shape input ! 4)
                (data input) (data out)
           \<and> BatchNorm_forward_loops M bn input out
                (idx3d (shape input ! 0) (shape input ! 1) (shape input ! 2) (shape input ! 3)
                   (shape input ! 4))
                (shape input ! 0 * shape input ! 2 * shape input ! 3 * shape input ! 4)
              = (bn', out')"
  using assms unfolding BatchNorm3d_forward_def Let_def
  by (auto split: if_splits sum.splits)




lemmas bn_eval = BatchNorm_forward_in_bounds_def BatchNorm_forward_loops_def
  BatchNorm_forward_channel_def channel_mean_def channel_var_def idx1d_def idx2d_def idx3d_def
  for_loop_def real_libm_def upt_conv_Cons Let_def tensor_defs



subsection \<open>BatchNorm backward: the gradients of gamma and beta\<close>

















subsection \<open>BatchNorm forward on a constant channel\<close>

lemma fold_cond_write:
  "p \<in> set xs \<Longrightarrow> fold (\<lambda>x v. if p \<in> {x} then val x else v) xs v = val p"
  by (induction xs arbitrary: v rule: rev_induct) auto

lemma pointwise_write:
  "pointwise (fold (\<lambda>idx out. out[idx := val idx]) xs) L (set xs) (\<lambda>p v. val p)"
proof -
  have "pointwise (fold (\<lambda>idx out. out[idx := val idx]) xs) L UNIV
          (\<lambda>p v. fold (\<lambda>x v. if p \<in> {x} then val x else v) xs v)"
    by (rule pointwise_fold) (rule pointwise_update [where f = "\<lambda>_. val x" for x])
  then show ?thesis
  proof (rule pointwise_weaken)
    fix p and v :: 'a
    show "(if p \<in> UNIV then fold (\<lambda>x v. if p \<in> {x} then val x else v) xs v else v)
           = (if p \<in> set xs then val p else v)"
    proof (cases "p \<in> set xs")
      case True
      then show ?thesis
        by (simp only: UNIV_I if_True fold_cond_write [OF True])
    next
      case False
      then have "fold (\<lambda>x v. if p \<in> {x} then val x else v) xs v = v"
        by (intro fold_cond_not_mem [where S = "\<lambda>x. {x}" and h = "\<lambda>x p v. val x"]) auto
      with False show ?thesis
        by (simp only: UNIV_I if_True if_False)
    qed
  qed
qed

lemma channel_write_nth:
  assumes "c < nf" and "p \<in> set (idxs c)" and "p < length od"
    and "\<And>c'. c' < nf \<Longrightarrow> c' \<noteq> c \<Longrightarrow> p \<notin> set (idxs c')"
  shows "for_loop nf (\<lambda>c. fold (\<lambda>idx out. out[idx := val c idx]) (idxs c)) od ! p = val c p"
proof -
  have pw: "pointwise (for_loop nf (\<lambda>c. fold (\<lambda>idx out. out[idx := val c idx]) (idxs c)))
          (length od) UNIV
          (\<lambda>p v. fold (\<lambda>c v. if p \<in> set (idxs c) then val c p else v) [0..<nf] v)"
    by (rule pointwise_for_loop) (rule pointwise_write)
  have "fold (\<lambda>c v. if p \<in> set (idxs c) then val c p else v) [0..<nf] (od ! p) = val c p"
  proof (rule fold_cond_once [where x = c and S = "\<lambda>c. set (idxs c)" and h = "\<lambda>c p v. val c p"])
    show "distinct [0..<nf]" by simp
    show "c \<in> set [0..<nf]" using assms(1) by simp
    show "p \<in> set (idxs c)" by (rule assms(2))
    show "p \<notin> set (idxs y)" if "y \<in> set [0..<nf]" and "y \<noteq> c" for y
      using that assms(4) by simp
  qed
  with pointwise_nth [OF pw refl assms(3)] show ?thesis
    by simp
qed

lemma BatchNorm_forward_loops_output:
  assumes "BatchNorm_forward_loops M bn input out idxs count = (bn', out')"
    and "c < num_features bn" and "p \<in> set (idxs c)" and "p < length (data out)"
    and "\<And>c'. c' < num_features bn \<Longrightarrow> c' \<noteq> c \<Longrightarrow> p \<notin> set (idxs c')"
  shows "data out' ! p = normalized M bn (data input) (idxs c) count c p"
proof -
  from assms(1) have "data out' =
      for_loop (num_features bn)
        (\<lambda>c. fold (\<lambda>idx out. out[idx := normalized M bn (data input) (idxs c) count c idx])
                (idxs c)) (data out)"
    by (auto simp: BatchNorm_forward_loops_def BatchNorm_forward_loop_split)
  then show ?thesis
    using channel_write_nth [where nf = "num_features bn" and c = c and p = p and idxs = idxs
        and od = "data out"
        and val = "\<lambda>c idx. normalized M bn (data input) (idxs c) count c idx"] assms(2,3,4,5)
    by simp
qed

text \<open>The channel of a position.\<close>

lemma idx1d_channel:
  assumes "p \<in> set (idx1d batch_size nf c)" and "c < nf"
  shows "p mod nf = c" and "p < batch_size * nf"
  using assms by (auto simp: idx1d_def block_index_less)

lemma mixed_radix:
  assumes "c < C" and "r < (K::nat)"
  shows "((n * C + c) * K + r) div K mod C = c"
  using assms by simp

lemma idx2d_channel:
  assumes "p \<in> set (idx2d N C H W c)" and "c < C"
  shows "p div (H * W) mod C = c" and "p < N * C * H * W"
proof -
  from assms(1) obtain n h where n: "n < N" and h: "h < H"
    and lo: "n * C * H * W + c * H * W + h * W \<le> p"
    and hi: "p < W + (n * C * H * W + c * H * W + h * W)"
    by (auto simp: idx2d_def)
  define w where "w = p - (n * C * H * W + c * H * W + h * W)"
  have w: "w < W" and p: "p = n * C * H * W + c * H * W + h * W + w"
    using lo hi by (simp_all add: w_def)
  have r: "h * W + w < H * W"
    using h w by (rule block_index_less)
  have p': "p = (n * C + c) * (H * W) + (h * W + w)"
    unfolding p by (simp add: algebra_simps)
  show "p div (H * W) mod C = c"
    unfolding p' using assms(2) r by (rule mixed_radix)
  have "n * C + c < N * C"
    using n assms(2) by (rule block_index_less)
  then have "(n * C + c) * (H * W) + (h * W + w) < (N * C) * (H * W)"
    using r by (rule block_index_less)
  then show "p < N * C * H * W"
    unfolding p' by (simp add: mult.assoc)
qed

lemma idx3d_channel:
  assumes "p \<in> set (idx3d N C D H W c)" and "c < C"
  shows "p div (D * H * W) mod C = c" and "p < N * C * D * H * W"
proof -
  from assms(1) obtain n d h where n: "n < N" and d: "d < D" and h: "h < H"
    and lo: "n * C * D * H * W + c * D * H * W + d * H * W + h * W \<le> p"
    and hi: "p < W + (n * C * D * H * W + c * D * H * W + d * H * W + h * W)"
    by (auto simp: idx3d_def)
  define w where "w = p - (n * C * D * H * W + c * D * H * W + d * H * W + h * W)"
  have w: "w < W" and p: "p = n * C * D * H * W + c * D * H * W + d * H * W + h * W + w"
    using lo hi by (simp_all add: w_def)
  have "d * H + h < D * H"
    using d h by (rule block_index_less)
  then have "(d * H + h) * W + w < (D * H) * W"
    using w by (rule block_index_less)
  then have r: "d * H * W + h * W + w < D * H * W"
    by (simp add: algebra_simps)
  have p': "p = (n * C + c) * (D * H * W) + (d * H * W + h * W + w)"
    unfolding p by (simp add: algebra_simps)
  show "p div (D * H * W) mod C = c"
    unfolding p' using assms(2) r by (rule mixed_radix)
  have "n * C + c < N * C"
    using n assms(2) by (rule block_index_less)
  then have "(n * C + c) * (D * H * W) + (d * H * W + h * W + w) < (N * C) * (D * H * W)"
    using r by (rule block_index_less)
  then show "p < N * C * D * H * W"
    unfolding p' by (simp add: mult.assoc)
qed


lemma values_at_constant:
  "\<forall>i\<in>set idxs. x ! i = v \<Longrightarrow> values_at x idxs = replicate (length idxs) v"
  by (induction idxs) (simp_all add: values_at_def)

lemma batch_var_constant:
  assumes "exact_on_constant M e v n"
  shows "batch_var M (replicate n v) = 0"
proof -
  have "foldl (+) 0 (replicate n (0::'a)) = 0"
    using assms by (intro foldl_add_zeros) (simp_all add: exact_on_constant_def)
  then show ?thesis
    using assms by (simp add: batch_var_def exact_on_constant_def)
qed

lemma normalized_constant:
  assumes "\<forall>i\<in>set idxs. x ! i = v" and "p \<in> set idxs"
    and "exact_on_constant M (eps bn) v (length idxs)"
    and "affine bn \<longrightarrow> data (gamma bn) ! c * 0 + data (beta bn) ! c = 0"
  shows "normalized M bn x idxs (length idxs) c p = 0"
proof -
  let ?n = "length idxs"
  have vals: "values_at x idxs = replicate ?n v"
    using assms(1) by (rule values_at_constant)
  have m: "channel_mean M x idxs ?n = v"
    using assms(3) by (simp add: channel_mean_eq vals exact_on_constant_def)
  have "channel_var M x idxs ?n (batch_mean M (values_at x idxs)) = batch_var M (values_at x idxs)"
    by (rule channel_var_eq)
  then have var: "channel_var M x idxs ?n v = 0"
    using assms(3) m by (simp add: channel_mean_eq [symmetric] vals [symmetric]
        batch_var_constant [OF assms(3), unfolded vals [symmetric]])
  have xp: "x ! p = v"
    using assms(1,2) by simp
  have "(x ! p - v) * (1 / sqrtf M (0 + eps bn)) = 0"
    using assms(3) by (simp add: xp exact_on_constant_def)
  then show ?thesis
    using assms(4) by (simp add: normalized_def m var Let_def)
qed


lemma for_loop_tensor_pair:
  "for_loop n (\<lambda>i (g, b). (g\<lparr>data := (data g)[i := f i]\<rparr>, b\<lparr>data := (data b)[i := h i]\<rparr>))
     (g0, b0)
   = (g0\<lparr>data := for_loop n (\<lambda>i d. d[i := f i]) (data g0)\<rparr>,
      b0\<lparr>data := for_loop n (\<lambda>i d. d[i := h i]) (data b0)\<rparr>)"
  by (induction n) (simp_all add: for_loop_0 for_loop_Suc)

lemma for_loop_zeros:
  "\<forall>x\<in>set xs. x = 0 \<Longrightarrow> \<forall>x\<in>set (for_loop n (\<lambda>i d. d[i := 0]) xs). x = 0"
proof (induction n)
  case 0
  then show ?case by (simp add: for_loop_0)
next
  case (Suc n)
  then have "\<forall>x\<in>set (for_loop n (\<lambda>i d. d[i := 0]) xs). x = 0"
    by simp
  then show ?case
    using set_update_subset_insert [of "for_loop n (\<lambda>i d. d[i := 0]) xs" n 0]
    by (auto simp: for_loop_Suc)
qed

lemma BatchNorm_new_fields:
  assumes "BatchNorm_new nf e mo aff track dis = Inr bn"
  shows "num_features bn = nf" and "eps bn = e" and "affine bn = aff"
    and "aff \<Longrightarrow> \<forall>x\<in>set (data (beta bn)). x = 0"
    and "aff \<Longrightarrow> c < nf \<Longrightarrow> nf \<le> length (data (gamma bn)) \<Longrightarrow> data (gamma bn) ! c = dis c"
proof -
  from assms show "num_features bn = nf" and "eps bn = e" and "affine bn = aff"
    unfolding BatchNorm_new_def by (auto split: sum.splits prod.splits if_splits)
  {
    assume aff: aff
    from assms aff obtain g b where ab: "BatchNorm_new_affine nf dis = Inr (g, b)"
      and gb: "gamma bn = g" "beta bn = b"
      unfolding BatchNorm_new_def by (auto split: sum.splits prod.splits if_splits)
    from ab obtain k where
      g: "data g = for_loop nf (\<lambda>i d. d[i := dis i]) (replicate k 0)"
      and b: "data b = for_loop nf (\<lambda>i d. d[i := 0]) (replicate k 0)"
      unfolding BatchNorm_new_affine_def
      by (auto simp: for_loop_tensor_pair resize_cases resize_grad_cases Tensor_new_def
            Tensor_size_def validate_shape_def vector_resize_def split: sum.splits if_splits)
    show "\<forall>x\<in>set (data (beta bn)). x = 0"
      unfolding gb b by (rule for_loop_zeros) simp
    {
      assume c: "c < nf" and len: "nf \<le> length (data (gamma bn))"
      from len have "nf \<le> length (replicate k (0::'a))"
        unfolding gb g by (simp add: length_for_loop_set)
      then show "data (gamma bn) ! c = dis c"
        unfolding gb g using c by (rule for_loop_set_nth)
    }
  }
qed


lemma BatchNorm_forward_loops_constant:
  assumes loops: "BatchNorm_forward_loops M bn input out idxs count = (bn', out')"
    and new: "BatchNorm_new nf e mo aff track dis = Inr bn"
    and c: "c < nf"
    and aff: "aff \<longrightarrow> dis c * 0 + 0 = 0"
    and ib: "BatchNorm_forward_in_bounds bn numel (data input) (data out)"
    and range: "\<And>p. p \<in> set (idxs c) \<Longrightarrow> p < numel"
    and disj: "\<And>p c'. p \<in> set (idxs c) \<Longrightarrow> c' < nf \<Longrightarrow> c' \<noteq> c \<Longrightarrow> p \<notin> set (idxs c')"
    and const: "\<forall>p\<in>set (idxs c). data input ! p = v"
    and ex: "exact_on_constant M e v count" and cnt: "count = length (idxs c)"
    and p: "p \<in> set (idxs c)"
  shows "data out' ! p = 0"
proof -
  note f = BatchNorm_new_fields [OF new]
  have nf: "num_features bn = nf" and e: "eps bn = e" and a: "affine bn = aff"
    by (rule f)+
  have plen: "p < length (data out)"
    using range [OF p] ib by (simp add: BatchNorm_forward_in_bounds_def)
  have "data out' ! p = normalized M bn (data input) (idxs c) count c p"
    using c p plen disj [OF p] by (intro BatchNorm_forward_loops_output [OF loops]) (simp_all add: nf)
  moreover have "normalized M bn (data input) (idxs c) (length (idxs c)) c p = 0"
  proof (rule normalized_constant [OF const p])
    show "exact_on_constant M (eps bn) v (length (idxs c))"
      using ex by (simp add: e cnt)
    show "affine bn \<longrightarrow> data (gamma bn) ! c * 0 + data (beta bn) ! c = 0"
    proof
      assume "affine bn"
      then have aff': aff by (simp add: a)
      with ib have lg: "nf \<le> length (data (gamma bn))" and lb: "nf \<le> length (data (beta bn))"
        by (simp_all add: BatchNorm_forward_in_bounds_def nf a)
      have "data (gamma bn) ! c = dis c"
        using aff' c lg by (rule f(5))
      moreover have "data (beta bn) ! c = 0"
        using f(4) [OF aff'] c lb by simp
      ultimately show "data (gamma bn) ! c * 0 + data (beta bn) ! c = 0"
        using aff aff' by simp
    qed
  qed
  ultimately show ?thesis
    by (simp add: cnt)
qed

lemmas xfloat_eval = zero_xfloat_def one_xfloat_def plus_xfloat_def minus_xfloat_def
  times_xfloat_def divide_xfloat_def xfloat_libm_def

text \<open>
  Claim C9, as amended. For a freshly constructed BatchNorm layer of any rank, affine or
  not, and a channel \<open>c\<close> of a valid input on which every element equals \<open>v\<close>, a successful
  forward call writes exactly 0 at every position of that channel, provided the arithmetic
  on the channel is exact and finite: the computed batch mean equals \<open>v\<close>, \<open>v - v\<close>,
  \<open>0 * 0\<close>, \<open>0 + 0\<close> and \<open>0 / n\<close> are 0, and 0 times \<open>inv_std = 1 / sqrt (0 + eps)\<close> is 0; for
  an affine layer also \<open>gamma * 0 + beta = 0\<close> at the initial \<open>gamma\<close> and \<open>beta = 0\<close>.
\<close>

theorem BatchNorm_constant_channel:
  "BatchNorm_new nf e mo aff track dis = Inr bn \<and> c < nf \<and> (aff \<longrightarrow> dis c * 0 + 0 = 0) \<longrightarrow>
     (BatchNorm1d_forward M bn input output = Inr (bn', out')
        \<and> (\<forall>p\<in>set (idx1d (shape input ! 0) nf c). data input ! p = v)
        \<and> exact_on_constant M e v (shape input ! 0) \<longrightarrow>
      (\<forall>p\<in>set (idx1d (shape input ! 0) nf c). data out' ! p = 0))
   \<and> (BatchNorm2d_forward M bn input output = Inr (bn', out')
        \<and> (\<forall>p\<in>set (idx2d (shape input ! 0) nf (shape input ! 2) (shape input ! 3) c).
              data input ! p = v)
        \<and> exact_on_constant M e v (shape input ! 0 * shape input ! 2 * shape input ! 3) \<longrightarrow>
      (\<forall>p\<in>set (idx2d (shape input ! 0) nf (shape input ! 2) (shape input ! 3) c).
          data out' ! p = 0))
   \<and> (BatchNorm3d_forward M bn input output = Inr (bn', out')
        \<and> (\<forall>p\<in>set (idx3d (shape input ! 0) nf (shape input ! 2) (shape input ! 3)
                        (shape input ! 4) c).
              data input ! p = v)
        \<and> exact_on_constant M e v
             (shape input ! 0 * shape input ! 2 * shape input ! 3 * shape input ! 4) \<longrightarrow>
      (\<forall>p\<in>set (idx3d (shape input ! 0) nf (shape input ! 2) (shape input ! 3)
                    (shape input ! 4) c).
          data out' ! p = 0))"
proof (intro conjI impI ballI)
  fix p
  assume h: "BatchNorm_new nf e mo aff track dis = Inr bn \<and> c < nf \<and> (aff \<longrightarrow> dis c * 0 + 0 = 0)"
    and g: "BatchNorm1d_forward M bn input output = Inr (bn', out')
        \<and> (\<forall>p\<in>set (idx1d (shape input ! 0) nf c). data input ! p = v)
        \<and> exact_on_constant M e v (shape input ! 0)"
    and p: "p \<in> set (idx1d (shape input ! 0) nf c)"
  from h have new: "BatchNorm_new nf e mo aff track dis = Inr bn" and c: "c < nf"
    and affh: "aff \<longrightarrow> dis c * 0 + 0 = 0"
    by blast+
  from new have nf: "num_features bn = nf"
    by (rule BatchNorm_new_fields(1))
  from g BatchNorm1d_forward_Inr [of M bn "input" "output" bn' out'] obtain out where
    ib: "BatchNorm_forward_in_bounds bn (shape input ! 0 * nf) (data input) (data out)"
    and lp: "BatchNorm_forward_loops M bn input out (idx1d (shape input ! 0) nf) (shape input ! 0)
               = (bn', out')"
    unfolding nf by blast
  show "data out' ! p = 0"
  proof (rule BatchNorm_forward_loops_constant [OF lp _ _ _ ib _ _ _ _ _ p])
    show "BatchNorm_new nf e mo aff track dis = Inr bn" and "c < nf"
      and "aff \<longrightarrow> dis c * 0 + 0 = 0"
      by (rule new, rule c, rule affh)
    show "\<forall>p\<in>set (idx1d (shape input ! 0) nf c). data input ! p = v"
      and "exact_on_constant M e v (shape input ! 0)"
      using g by simp_all
    show "shape input ! 0 = length (idx1d (shape input ! 0) nf c)"
      by (simp add: length_idx1d)
    show "q < shape input ! 0 * nf" if "q \<in> set (idx1d (shape input ! 0) nf c)" for q
      using that c by (intro idx1d_channel(2))
    show "q \<notin> set (idx1d (shape input ! 0) nf c')"
      if "q \<in> set (idx1d (shape input ! 0) nf c)" and "c' < nf" and "c' \<noteq> c" for q c'
      using that c idx1d_channel(1) [of q "shape input ! 0" nf c]
        idx1d_channel(1) [of q "shape input ! 0" nf c'] by auto
  qed
next
  fix p
  assume h: "BatchNorm_new nf e mo aff track dis = Inr bn \<and> c < nf \<and> (aff \<longrightarrow> dis c * 0 + 0 = 0)"
    and g: "BatchNorm2d_forward M bn input output = Inr (bn', out')
        \<and> (\<forall>p\<in>set (idx2d (shape input ! 0) nf (shape input ! 2) (shape input ! 3) c).
              data input ! p = v)
        \<and> exact_on_constant M e v (shape input ! 0 * shape input ! 2 * shape input ! 3)"
    and p: "p \<in> set (idx2d (shape input ! 0) nf (shape input ! 2) (shape input ! 3) c)"
  let ?idxs = "idx2d (shape input ! 0) nf (shape input ! 2) (shape input ! 3)"
  from h have new: "BatchNorm_new nf e mo aff track dis = Inr bn" and c: "c < nf"
    and affh: "aff \<longrightarrow> dis c * 0 + 0 = 0"
    by blast+
  from new have nf: "num_features bn = nf"
    by (rule BatchNorm_new_fields(1))
  from g BatchNorm2d_forward_Inr [of M bn "input" "output" bn' out'] obtain out where
    ch: "shape input ! 1 = nf"
    and ib: "BatchNorm_forward_in_bounds bn
               (shape input ! 0 * shape input ! 1 * shape input ! 2 * shape input ! 3)
               (data input) (data out)"
    and lp: "BatchNorm_forward_loops M bn input out
               (idx2d (shape input ! 0) (shape input ! 1) (shape input ! 2) (shape input ! 3))
               (shape input ! 0 * shape input ! 2 * shape input ! 3) = (bn', out')"
    unfolding nf by blast
  show "data out' ! p = 0"
  proof (rule BatchNorm_forward_loops_constant [OF lp [unfolded ch] _ _ _ ib [unfolded ch] _ _ _ _ _ p])
    show "BatchNorm_new nf e mo aff track dis = Inr bn" and "c < nf"
      and "aff \<longrightarrow> dis c * 0 + 0 = 0"
      by (rule new, rule c, rule affh)
    show "\<forall>p\<in>set (?idxs c). data input ! p = v"
      and "exact_on_constant M e v (shape input ! 0 * shape input ! 2 * shape input ! 3)"
      using g by simp_all
    show "shape input ! 0 * shape input ! 2 * shape input ! 3 = length (?idxs c)"
      by (simp add: length_idx2d)
    show "q < shape input ! 0 * nf * shape input ! 2 * shape input ! 3"
      if "q \<in> set (?idxs c)" for q
      using that c by (intro idx2d_channel(2))
    show "q \<notin> set (?idxs c')" if "q \<in> set (?idxs c)" and "c' < nf" and "c' \<noteq> c" for q c'
      using that c
        idx2d_channel(1) [of q "shape input ! 0" nf "shape input ! 2" "shape input ! 3" c]
        idx2d_channel(1) [of q "shape input ! 0" nf "shape input ! 2" "shape input ! 3" c']
      by auto
  qed
next
  fix p
  assume h: "BatchNorm_new nf e mo aff track dis = Inr bn \<and> c < nf \<and> (aff \<longrightarrow> dis c * 0 + 0 = 0)"
    and g: "BatchNorm3d_forward M bn input output = Inr (bn', out')
        \<and> (\<forall>p\<in>set (idx3d (shape input ! 0) nf (shape input ! 2) (shape input ! 3)
                        (shape input ! 4) c).
              data input ! p = v)
        \<and> exact_on_constant M e v
             (shape input ! 0 * shape input ! 2 * shape input ! 3 * shape input ! 4)"
    and p: "p \<in> set (idx3d (shape input ! 0) nf (shape input ! 2) (shape input ! 3)
                        (shape input ! 4) c)"
  let ?idxs = "idx3d (shape input ! 0) nf (shape input ! 2) (shape input ! 3) (shape input ! 4)"
  from h have new: "BatchNorm_new nf e mo aff track dis = Inr bn" and c: "c < nf"
    and affh: "aff \<longrightarrow> dis c * 0 + 0 = 0"
    by blast+
  from new have nf: "num_features bn = nf"
    by (rule BatchNorm_new_fields(1))
  from g BatchNorm3d_forward_Inr [of M bn "input" "output" bn' out'] obtain out where
    ch: "shape input ! 1 = nf"
    and ib: "BatchNorm_forward_in_bounds bn
               (shape input ! 0 * shape input ! 1 * shape input ! 2 * shape input ! 3
                  * shape input ! 4)
               (data input) (data out)"
    and lp: "BatchNorm_forward_loops M bn input out
               (idx3d (shape input ! 0) (shape input ! 1) (shape input ! 2) (shape input ! 3)
                  (shape input ! 4))
               (shape input ! 0 * shape input ! 2 * shape input ! 3 * shape input ! 4)
             = (bn', out')"
    unfolding nf by blast
  show "data out' ! p = 0"
  proof (rule BatchNorm_forward_loops_constant [OF lp [unfolded ch] _ _ _ ib [unfolded ch] _ _ _ _ _ p])
    show "BatchNorm_new nf e mo aff track dis = Inr bn" and "c < nf"
      and "aff \<longrightarrow> dis c * 0 + 0 = 0"
      by (rule new, rule c, rule affh)
    show "\<forall>p\<in>set (?idxs c). data input ! p = v"
      and "exact_on_constant M e v
             (shape input ! 0 * shape input ! 2 * shape input ! 3 * shape input ! 4)"
      using g by simp_all
    show "shape input ! 0 * shape input ! 2 * shape input ! 3 * shape input ! 4
            = length (?idxs c)"
      by (simp add: length_idx3d)
    show "q < shape input ! 0 * nf * shape input ! 2 * shape input ! 3 * shape input ! 4"
      if "q \<in> set (?idxs c)" for q
      using that c by (intro idx3d_channel(2))
    show "q \<notin> set (?idxs c')" if "q \<in> set (?idxs c)" and "c' < nf" and "c' \<noteq> c" for q c'
      using that c
        idx3d_channel(1) [of q "shape input ! 0" nf "shape input ! 2" "shape input ! 3"
           "shape input ! 4" c]
        idx3d_channel(1) [of q "shape input ! 0" nf "shape input ! 2" "shape input ! 3"
           "shape input ! 4" c']
      by auto
  qed
qed

theorem BatchNorm_constant_channel_witness:
  "BatchNorm_new 1 3 (1 / 2) True True (\<lambda>_. 2) =
     Inr \<lparr>num_features = 1, eps = 3 :: real, momentum = 1 / 2, affine = True,
        track_running_stats = True,
        gamma = \<lparr>shape = [1], data = [2], grad = [0]\<rparr>,
        beta = \<lparr>shape = [1], data = [0], grad = [0]\<rparr>,
        running_mean = \<lparr>shape = [1], data = [0], grad = []\<rparr>,
        running_var = \<lparr>shape = [1], data = [0], grad = []\<rparr>,
        input_data = [], first_update = True\<rparr>
   \<and> exact_on_constant real_libm 3 5 2
   \<and> BatchNorm1d_forward real_libm
       \<lparr>num_features = 1, eps = 3 :: real, momentum = 1 / 2, affine = True,
        track_running_stats = True,
        gamma = \<lparr>shape = [1], data = [2], grad = [0]\<rparr>,
        beta = \<lparr>shape = [1], data = [0], grad = [0]\<rparr>,
        running_mean = \<lparr>shape = [1], data = [0], grad = []\<rparr>,
        running_var = \<lparr>shape = [1], data = [0], grad = []\<rparr>,
        input_data = [], first_update = True\<rparr>
       \<lparr>shape = [2, 1], data = [5, 5 :: real], grad = []\<rparr> Tensor_new
     = Inr (\<lparr>num_features = 1, eps = 3 :: real, momentum = 1 / 2, affine = True,
        track_running_stats = True,
        gamma = \<lparr>shape = [1], data = [2], grad = [0]\<rparr>,
        beta = \<lparr>shape = [1], data = [0], grad = [0]\<rparr>,
        running_mean = \<lparr>shape = [1], data = [5], grad = []\<rparr>,
        running_var = \<lparr>shape = [1], data = [0], grad = []\<rparr>,
        input_data = [5, 5], first_update = False\<rparr>,
            \<lparr>shape = [2, 1], data = [0, 0 :: real], grad = []\<rparr>)
   \<and> BatchNorm2d_forward real_libm
       \<lparr>num_features = 1, eps = 3 :: real, momentum = 1 / 2, affine = True,
        track_running_stats = True,
        gamma = \<lparr>shape = [1], data = [2], grad = [0]\<rparr>,
        beta = \<lparr>shape = [1], data = [0], grad = [0]\<rparr>,
        running_mean = \<lparr>shape = [1], data = [0], grad = []\<rparr>,
        running_var = \<lparr>shape = [1], data = [0], grad = []\<rparr>,
        input_data = [], first_update = True\<rparr>
       \<lparr>shape = [2, 1, 1, 1], data = [5, 5 :: real], grad = []\<rparr> Tensor_new
     = Inr (\<lparr>num_features = 1, eps = 3 :: real, momentum = 1 / 2, affine = True,
        track_running_stats = True,
        gamma = \<lparr>shape = [1], data = [2], grad = [0]\<rparr>,
        beta = \<lparr>shape = [1], data = [0], grad = [0]\<rparr>,
        running_mean = \<lparr>shape = [1], data = [5], grad = []\<rparr>,
        running_var = \<lparr>shape = [1], data = [0], grad = []\<rparr>,
        input_data = [5, 5], first_update = False\<rparr>,
            \<lparr>shape = [2, 1, 1, 1], data = [0, 0 :: real], grad = []\<rparr>)
   \<and> BatchNorm3d_forward real_libm
       \<lparr>num_features = 1, eps = 3 :: real, momentum = 1 / 2, affine = True,
        track_running_stats = True,
        gamma = \<lparr>shape = [1], data = [2], grad = [0]\<rparr>,
        beta = \<lparr>shape = [1], data = [0], grad = [0]\<rparr>,
        running_mean = \<lparr>shape = [1], data = [0], grad = []\<rparr>,
        running_var = \<lparr>shape = [1], data = [0], grad = []\<rparr>,
        input_data = [], first_update = True\<rparr>
       \<lparr>shape = [2, 1, 1, 1, 1], data = [5, 5 :: real], grad = []\<rparr> Tensor_new
     = Inr (\<lparr>num_features = 1, eps = 3 :: real, momentum = 1 / 2, affine = True,
        track_running_stats = True,
        gamma = \<lparr>shape = [1], data = [2], grad = [0]\<rparr>,
        beta = \<lparr>shape = [1], data = [0], grad = [0]\<rparr>,
        running_mean = \<lparr>shape = [1], data = [5], grad = []\<rparr>,
        running_var = \<lparr>shape = [1], data = [0], grad = []\<rparr>,
        input_data = [5, 5], first_update = False\<rparr>,
            \<lparr>shape = [2, 1, 1, 1, 1], data = [0, 0 :: real], grad = []\<rparr>)
   \<and> data \<lparr>shape = [2, 1], data = [0, 0 :: real], grad = []\<rparr> ! 1 = 0
   \<and> data \<lparr>shape = [2, 1, 1, 1], data = [0, 0 :: real], grad = []\<rparr> ! 1 = 0
   \<and> data \<lparr>shape = [2, 1, 1, 1, 1], data = [0, 0 :: real], grad = []\<rparr> ! 1 = 0"
proof -
  let ?bn0 = "\<lparr>num_features = 1, eps = 3 :: real, momentum = 1 / 2, affine = True,
        track_running_stats = True,
        gamma = \<lparr>shape = [1], data = [2], grad = [0]\<rparr>,
        beta = \<lparr>shape = [1], data = [0], grad = [0]\<rparr>,
        running_mean = \<lparr>shape = [1], data = [0], grad = []\<rparr>,
        running_var = \<lparr>shape = [1], data = [0], grad = []\<rparr>,
        input_data = [], first_update = True\<rparr>"
  let ?bn1 = "\<lparr>num_features = 1, eps = 3 :: real, momentum = 1 / 2, affine = True,
        track_running_stats = True,
        gamma = \<lparr>shape = [1], data = [2], grad = [0]\<rparr>,
        beta = \<lparr>shape = [1], data = [0], grad = [0]\<rparr>,
        running_mean = \<lparr>shape = [1], data = [5], grad = []\<rparr>,
        running_var = \<lparr>shape = [1], data = [0], grad = []\<rparr>,
        input_data = [5, 5], first_update = False\<rparr>"
  let ?x1 = "\<lparr>shape = [2, 1], data = [5, 5 :: real], grad = []\<rparr>" and ?x4 = "\<lparr>shape = [2, 1, 1, 1], data = [5, 5 :: real], grad = []\<rparr>" and ?x5 = "\<lparr>shape = [2, 1, 1, 1, 1], data = [5, 5 :: real], grad = []\<rparr>"
  let ?o1 = "\<lparr>shape = [2, 1], data = [0, 0 :: real], grad = []\<rparr>" and ?o4 = "\<lparr>shape = [2, 1, 1, 1], data = [0, 0 :: real], grad = []\<rparr>" and ?o5 = "\<lparr>shape = [2, 1, 1, 1, 1], data = [0, 0 :: real], grad = []\<rparr>"
  have new: "BatchNorm_new 1 3 (1 / 2) True True (\<lambda>_. 2) = Inr ?bn0"
    by (simp add: BatchNorm_new_def BatchNorm_new_affine_def BatchNorm_new_running_def
          tensor_defs for_loop_def)
  have ex: "exact_on_constant real_libm 3 5 2"
    by (simp add: exact_on_constant_def batch_mean_def real_libm_def numeral_2_eq_2)
  have f1: "BatchNorm1d_forward real_libm ?bn0 ?x1 Tensor_new = Inr (?bn1, ?o1)"
    by (simp add: BatchNorm1d_forward_def bn_eval) (simp add: numeral_2_eq_2)
  have f4: "BatchNorm2d_forward real_libm ?bn0 ?x4 Tensor_new = Inr (?bn1, ?o4)"
    by (simp add: BatchNorm2d_forward_def bn_eval) (simp add: numeral_2_eq_2)
  have f5: "BatchNorm3d_forward real_libm ?bn0 ?x5 Tensor_new = Inr (?bn1, ?o5)"
    by (simp add: BatchNorm3d_forward_def bn_eval) (simp add: numeral_2_eq_2)
  have h: "BatchNorm_new 1 3 (1 / 2) True True (\<lambda>_. 2) = Inr ?bn0 \<and> (0::nat) < 1
     \<and> (True \<longrightarrow> (2::real) * 0 + 0 = 0)"
    using new by simp
  have i1: "1 \<in> set (idx1d 2 1 0)" and i4: "1 \<in> set (idx2d 2 1 1 1 0)"
    and i5: "1 \<in> set (idx3d 2 1 1 1 1 0)"
    by (simp_all add: idx1d_def idx2d_def idx3d_def upt_conv_Cons)
  have c1: "\<forall>p\<in>set (idx1d 2 1 0). data ?x1 ! p = 5"
    and c4: "\<forall>p\<in>set (idx2d 2 1 1 1 0). data ?x4 ! p = 5"
    and c5: "\<forall>p\<in>set (idx3d 2 1 1 1 1 0). data ?x5 ! p = 5"
    by (simp_all add: idx1d_def idx2d_def idx3d_def upt_conv_Cons)
  from BatchNorm_constant_channel
         [of 1 3 "1 / 2" True True "\<lambda>_. 2" ?bn0 0 real_libm "?x1" Tensor_new ?bn1 "?o1" 5]
       h f1 c1 ex
  have "\<forall>p\<in>set (idx1d 2 1 0). data ?o1 ! p = 0"
    by simp
  with i1 have r1: "data ?o1 ! 1 = 0"
    by blast
  from BatchNorm_constant_channel
         [of 1 3 "1 / 2" True True "\<lambda>_. 2" ?bn0 0 real_libm "?x4" Tensor_new ?bn1 "?o4" 5]
       h f4 c4 ex
  have "\<forall>p\<in>set (idx2d 2 1 1 1 0). data ?o4 ! p = 0"
    by simp
  with i4 have r4: "data ?o4 ! 1 = 0"
    by blast
  from BatchNorm_constant_channel
         [of 1 3 "1 / 2" True True "\<lambda>_. 2" ?bn0 0 real_libm "?x5" Tensor_new ?bn1 "?o5" 5]
       h f5 c5 ex
  have "\<forall>p\<in>set (idx3d 2 1 1 1 1 0). data ?o5 ! p = 0"
    by simp
  with i5 have r5: "data ?o5 ! 1 = 0"
    by blast
  from new ex f1 f4 f5 r1 r4 r5 show ?thesis
    by (intro conjI)
qed

text \<open>
  A layer constructed with \<open>eps = 0\<close> on the constant input \<open>[1, 1]\<close>: the variance plus
  \<open>eps\<close> is 0, \<open>inv_std\<close> is infinite and the output is \<open>0 * inf = NaN\<close> at both positions.
\<close>

theorem BatchNorm_zero_eps_counterexample:
  "BatchNorm_new 1 0 (Finite (1 / 10)) True True (\<lambda>_. 1) =
     Inr \<lparr>num_features = 1, eps = 0 :: xfloat, momentum = Finite (1 / 10), affine = True,
          track_running_stats = True,
          gamma = \<lparr>shape = [1], data = [1], grad = [0]\<rparr>,
          beta = \<lparr>shape = [1], data = [0], grad = [0]\<rparr>,
          running_mean = \<lparr>shape = [1], data = [0], grad = []\<rparr>,
          running_var = \<lparr>shape = [1], data = [0], grad = []\<rparr>,
          input_data = [], first_update = True\<rparr>
   \<and> BatchNorm1d_forward xfloat_libm
       \<lparr>num_features = 1, eps = 0 :: xfloat, momentum = Finite (1 / 10), affine = True,
        track_running_stats = True,
        gamma = \<lparr>shape = [1], data = [1], grad = [0]\<rparr>,
        beta = \<lparr>shape = [1], data = [0], grad = [0]\<rparr>,
        running_mean = \<lparr>shape = [1], data = [0], grad = []\<rparr>,
        running_var = \<lparr>shape = [1], data = [0], grad = []\<rparr>,
        input_data = [], first_update = True\<rparr>
       \<lparr>shape = [2, 1], data = [1, 1], grad = []\<rparr> Tensor_new
     = Inr (\<lparr>num_features = 1, eps = 0 :: xfloat, momentum = Finite (1 / 10), affine = True,
            track_running_stats = True,
            gamma = \<lparr>shape = [1], data = [1], grad = [0]\<rparr>,
            beta = \<lparr>shape = [1], data = [0], grad = [0]\<rparr>,
            running_mean = \<lparr>shape = [1], data = [1], grad = []\<rparr>,
            running_var = \<lparr>shape = [1], data = [0], grad = []\<rparr>,
            input_data = [1, 1], first_update = False\<rparr>,
            \<lparr>shape = [2, 1], data = [NaN, NaN], grad = []\<rparr>)
   \<and> NaN \<noteq> (0 :: xfloat)"
proof -
  have "BatchNorm_new 1 0 (Finite (1 / 10)) True True (\<lambda>_. 1) =
     Inr \<lparr>num_features = 1, eps = 0 :: xfloat, momentum = Finite (1 / 10), affine = True,
          track_running_stats = True,
          gamma = \<lparr>shape = [1], data = [1], grad = [0]\<rparr>,
          beta = \<lparr>shape = [1], data = [0], grad = [0]\<rparr>,
          running_mean = \<lparr>shape = [1], data = [0], grad = []\<rparr>,
          running_var = \<lparr>shape = [1], data = [0], grad = []\<rparr>,
          input_data = [], first_update = True\<rparr>"
    by (simp add: BatchNorm_new_def BatchNorm_new_affine_def BatchNorm_new_running_def
          tensor_defs for_loop_def)
  moreover have "BatchNorm1d_forward xfloat_libm
       \<lparr>num_features = 1, eps = 0 :: xfloat, momentum = Finite (1 / 10), affine = True,
        track_running_stats = True,
        gamma = \<lparr>shape = [1], data = [1], grad = [0]\<rparr>,
        beta = \<lparr>shape = [1], data = [0], grad = [0]\<rparr>,
        running_mean = \<lparr>shape = [1], data = [0], grad = []\<rparr>,
        running_var = \<lparr>shape = [1], data = [0], grad = []\<rparr>,
        input_data = [], first_update = True\<rparr>
       \<lparr>shape = [2, 1], data = [1, 1], grad = []\<rparr> Tensor_new
     = Inr (\<lparr>num_features = 1, eps = 0 :: xfloat, momentum = Finite (1 / 10), affine = True,
            track_running_stats = True,
            gamma = \<lparr>shape = [1], data = [1], grad = [0]\<rparr>,
            beta = \<lparr>shape = [1], data = [0], grad = [0]\<rparr>,
            running_mean = \<lparr>shape = [1], data = [1], grad = []\<rparr>,
            running_var = \<lparr>shape = [1], data = [0], grad = []\<rparr>,
            input_data = [1, 1], first_update = False\<rparr>,
            \<lparr>shape = [2, 1], data = [NaN, NaN], grad = []\<rparr>)"
    by (simp add: BatchNorm1d_forward_def BatchNorm_forward_in_bounds_def
          BatchNorm_forward_loops_def BatchNorm_forward_channel_def channel_mean_def
          channel_var_def idx1d_def for_loop_def upt_conv_Cons Let_def tensor_defs xfloat_eval)
       (simp add: numeral_2_eq_2 xfloat_eval)
  moreover have "NaN \<noteq> (0 :: xfloat)"
    by (simp add: zero_xfloat_def)
  ultimately show ?thesis
    by (intro conjI)
qed

end
